theory Spec2Isabelle
  imports Main "HOL-Library.Word"
begin

unbundle bit_operations_syntax

section \<open>Library models: strings, numbers, SHA-256\<close>

text \<open>
  A JavaScript string is modelled as \<open>string\<close>: the list of the bytes of its UTF-8
  encoding, which is what \<^verbatim>\<open>hash.update(s)\<close> feeds to the digest and what the object
  store receives as a key.
\<close>

subsection \<open>\<^verbatim>\<open>Array.prototype.join\<close> on an array of strings\<close>

fun join :: "string list \<Rightarrow> string \<Rightarrow> string" where
  "join [] sep = []"
| "join [x] sep = x"
| "join (x # y # ys) sep = x @ sep @ join (y # ys) sep"

subsection \<open>Number to string conversion\<close>

text \<open>
  Byte offsets, sizes and status codes are numbers with integer values. Such a number is
  modelled by its value, a natural number \<open>n\<close> that is a double: \<open>to_double n = n\<close>.
  A template literal applies \<^verbatim>\<open>Number::toString\<close>: the shortest decimal numeral that
  reads back as the number, the closest to it when there are several, written out in full
  when it has at most 21 digits and in exponent notation otherwise.
\<close>

text \<open>The decimal digits of a natural number, without leading zeros.\<close>

definition digit_char :: "nat \<Rightarrow> char" where
  "digit_char d = ''0123456789'' ! d"

fun decimal :: "nat \<Rightarrow> string" where
  "decimal n =
     (if n < 10 then [digit_char n]
      else decimal (n div 10) @ [digit_char (n mod 10)])"

declare decimal.simps [simp del]

text \<open>
  The double nearest to a natural number: 53 significant bits, a tie going to the even
  significand.
\<close>

fun bit_length :: "nat \<Rightarrow> nat" where
  "bit_length n = (if n = 0 then 0 else Suc (bit_length (n div 2)))"

declare bit_length.simps [simp del]

definition to_double :: "nat \<Rightarrow> nat" where
  "to_double v =
     (if bit_length v \<le> 53 then v
      else let unit = 2 ^ (bit_length v - 53);
               q = v div unit;
               r = v mod unit
           in if unit < 2 * r \<or> (unit = 2 * r \<and> odd q) then (q + 1) * unit else q * unit)"

text \<open>
  The multiples of \<open>10 ^ e\<close> next to \<open>x\<close>, the closer one first, and on a tie the one
  whose leading part is even.
\<close>

definition candidates_at :: "nat \<Rightarrow> nat \<Rightarrow> nat list" where
  "candidates_at x e =
     (let s = x div 10 ^ e;
          lo = s * 10 ^ e;
          hi = (s + 1) * 10 ^ e
      in if x - lo < hi - x \<or> (x - lo = hi - x \<and> even s) then [lo, hi] else [hi, lo])"

text \<open>
  The numeral chosen for \<open>x\<close>: the first of these that reads back as \<open>x\<close>, from
  one significant digit upwards.
\<close>

definition shortest_decimal :: "nat \<Rightarrow> nat" where
  "shortest_decimal x =
     (case find (\<lambda>v. to_double v = x)
             (concat (map (candidates_at x) (rev [0..<length (decimal x)]))) of
        Some v \<Rightarrow> v
      | None \<Rightarrow> x)"

text \<open>The digits of a numeral without its trailing zeros.\<close>

definition significant_digits :: "string \<Rightarrow> string" where
  "significant_digits s = rev (dropWhile (\<lambda>c. c = CHR ''0'') (rev s))"

definition number_to_string :: "nat \<Rightarrow> string" where
  "number_to_string x =
     (let digits = decimal (shortest_decimal x);
          n = length digits
      in if n \<le> 21 then digits
         else (case significant_digits digits of
                 [] \<Rightarrow> []
               | d # rest \<Rightarrow> (if rest = [] then [d] else d # ''.'' @ rest))
              @ ''e+'' @ decimal (n - 1))"

text \<open>Reading a decimal numeral back, most significant digit first.\<close>

definition digit_value :: "char \<Rightarrow> nat" where
  "digit_value c = of_char c - of_char (CHR ''0'')"

definition decimal_value :: "string \<Rightarrow> nat" where
  "decimal_value s = foldl (\<lambda>acc c. 10 * acc + digit_value c) 0 s"

subsection \<open>\<^verbatim>\<open>crypto.createHash("sha256").update(s).digest("hex")\<close>\<close>

type_synonym byte = "8 word"
type_synonym w32 = "32 word"

definition sha_k :: "w32 list" where
  "sha_k = [
    1116352408, 1899447441, 3049323471, 3921009573, 961987163, 1508970993,
    2453635748, 2870763221, 3624381080, 310598401, 607225278, 1426881987,
    1925078388, 2162078206, 2614888103, 3248222580, 3835390401, 4022224774,
    264347078, 604807628, 770255983, 1249150122, 1555081692, 1996064986,
    2554220882, 2821834349, 2952996808, 3210313671, 3336571891, 3584528711,
    113926993, 338241895, 666307205, 773529912, 1294757372, 1396182291,
    1695183700, 1986661051, 2177026350, 2456956037, 2730485921, 2820302411,
    3259730800, 3345764771, 3516065817, 3600352804, 4094571909, 275423344,
    430227734, 506948616, 659060556, 883997877, 958139571, 1322822218,
    1537002063, 1747873779, 1955562222, 2024104815, 2227730452, 2361852424,
    2428436474, 2756734187, 3204031479, 3329325298]"

type_synonym sha_state = "w32 \<times> w32 \<times> w32 \<times> w32 \<times> w32 \<times> w32 \<times> w32 \<times> w32"

definition sha_init :: sha_state where
  "sha_init = (1779033703, 3144134277, 1013904242, 2773480762,
               1359893119, 2600822924, 528734635, 1541459225)"

text \<open>Rotation to the right by \<open>n\<close> places, \<open>0 < n < 32\<close>.\<close>

definition rotr :: "nat \<Rightarrow> w32 \<Rightarrow> w32" where
  "rotr n x = drop_bit n x OR push_bit (32 - n) x"

definition big_sigma0 :: "w32 \<Rightarrow> w32" where
  "big_sigma0 x = rotr 2 x XOR rotr 13 x XOR rotr 22 x"

definition big_sigma1 :: "w32 \<Rightarrow> w32" where
  "big_sigma1 x = rotr 6 x XOR rotr 11 x XOR rotr 25 x"

definition small_sigma0 :: "w32 \<Rightarrow> w32" where
  "small_sigma0 x = rotr 7 x XOR rotr 18 x XOR drop_bit 3 x"

definition small_sigma1 :: "w32 \<Rightarrow> w32" where
  "small_sigma1 x = rotr 17 x XOR rotr 19 x XOR drop_bit 10 x"

definition sha_ch :: "w32 \<Rightarrow> w32 \<Rightarrow> w32 \<Rightarrow> w32" where
  "sha_ch x y z = (x AND y) XOR (NOT x AND z)"

definition sha_maj :: "w32 \<Rightarrow> w32 \<Rightarrow> w32 \<Rightarrow> w32" where
  "sha_maj x y z = (x AND y) XOR (x AND z) XOR (y AND z)"

text \<open>Padding: a one bit, zero bytes, and the bit length as 64 bits, big-endian.\<close>

definition be64 :: "nat \<Rightarrow> byte list" where
  "be64 n = map (\<lambda>i. of_nat (n div 2 ^ (8 * i) mod 256)) [7, 6, 5, 4, 3, 2, 1, 0]"

definition sha_pad :: "byte list \<Rightarrow> byte list" where
  "sha_pad m = m @ [128] @ replicate ((119 - length m mod 64) mod 64) 0 @ be64 (8 * length m)"

fun be_words :: "byte list \<Rightarrow> w32 list" where
  "be_words (a # b # c # d # rest) =
     (push_bit 24 (ucast a) OR push_bit 16 (ucast b) OR push_bit 8 (ucast c) OR ucast d)
       # be_words rest"
| "be_words _ = []"

fun sha_blocks :: "w32 list \<Rightarrow> w32 list list" where
  "sha_blocks ws =
     (if length ws < 16 then [] else take 16 ws # sha_blocks (drop 16 ws))"

declare sha_blocks.simps [simp del]

text \<open>The message schedule: 16 words of the block, extended to 64.\<close>

fun extend_schedule :: "nat \<Rightarrow> w32 list \<Rightarrow> w32 list" where
  "extend_schedule 0 w = w"
| "extend_schedule (Suc n) w =
     extend_schedule n
       (w @ [small_sigma1 (w ! (length w - 2)) + w ! (length w - 7)
             + small_sigma0 (w ! (length w - 15)) + w ! (length w - 16)])"

definition sha_round :: "sha_state \<Rightarrow> w32 \<times> w32 \<Rightarrow> sha_state" where
  "sha_round s kw =
     (case s of (a, b, c, d, e, f, g, h) \<Rightarrow>
        let t1 = h + big_sigma1 e + sha_ch e f g + fst kw + snd kw;
            t2 = big_sigma0 a + sha_maj a b c
        in (t1 + t2, a, b, c, d + t1, e, f, g))"

definition sha_add :: "sha_state \<Rightarrow> sha_state \<Rightarrow> sha_state" where
  "sha_add s t =
     (case s of (a, b, c, d, e, f, g, h) \<Rightarrow>
      case t of (a', b', c', d', e', f', g', h') \<Rightarrow>
        (a + a', b + b', c + c', d + d', e + e', f + f', g + g', h + h'))"

definition sha_compress :: "sha_state \<Rightarrow> w32 list \<Rightarrow> sha_state" where
  "sha_compress s block = sha_add s (foldl sha_round s (zip sha_k (extend_schedule 48 block)))"

definition sha256 :: "byte list \<Rightarrow> sha_state" where
  "sha256 m = foldl sha_compress sha_init (sha_blocks (be_words (sha_pad m)))"

definition hex_char :: "nat \<Rightarrow> char" where
  "hex_char d = ''0123456789abcdef'' ! d"

definition hex32 :: "w32 \<Rightarrow> string" where
  "hex32 w = map (\<lambda>i. hex_char (unat (drop_bit (4 * i) w AND 15))) [7, 6, 5, 4, 3, 2, 1, 0]"

definition sha256_hex :: "string \<Rightarrow> string" where
  "sha256_hex s =
     (case sha256 (map of_char s) of (a, b, c, d, e, f, g, h) \<Rightarrow>
        hex32 a @ hex32 b @ hex32 c @ hex32 d @ hex32 e @ hex32 f @ hex32 g @ hex32 h)"


section \<open>The environment and the object storage SDK\<close>

text \<open>
  The module reads \<^verbatim>\<open>process.env\<close> once, into the constants \<^verbatim>\<open>bucket\<close>, \<^verbatim>\<open>repo\<close>,
  \<^verbatim>\<open>workflowHash\<close> and \<^verbatim>\<open>ref\<close>; a variable that is not set is \<^verbatim>\<open>undefined\<close>.
  \<^verbatim>\<open>process.platform\<close> is read by \<^verbatim>\<open>getCacheVersion\<close>.
\<close>

record environment =
  bucket :: "string option"
  repo :: "string option"
  workflowHash :: "string option"
  ref :: "string option"
  platform :: string

definition versionSalt :: string where
  "versionSalt = ''1.0''"

text \<open>A value of type \<^verbatim>\<open>string | undefined\<close> inside a template literal.\<close>

definition template_value :: "string option \<Rightarrow> string" where
  "template_value v = (case v of None \<Rightarrow> ''undefined'' | Some s \<Rightarrow> s)"

text \<open>
  What the SDK and the runtime throw. A \<^verbatim>\<open>TosServerError\<close> carries the request id, the
  status code, the headers, the error code and the message; a \<^verbatim>\<open>TosClientError\<close> the
  message and the stack.
\<close>

datatype thrown =
    TosClientError string string
  | TosServerError string nat string string string
  | OtherError string

text \<open>
  The SDK client is an external collaborator: \<^verbatim>\<open>createObjectStorageClient\<close> is taken to
  return a client, and each method of the client is a parameter. For
  \<^verbatim>\<open>headObject\<close> and \<^verbatim>\<open>putObjectFromFile\<close>, whose responses are not read, \<open>None\<close> is a
  normal return and \<open>Some e\<close> is \<^verbatim>\<open>throw e\<close>. \<^verbatim>\<open>headObject\<close> is a query;
  \<^verbatim>\<open>getObjectToFile\<close> acts on the local files, given by their contents.
\<close>

type_synonym files = "string \<rightharpoonup> byte list"

text \<open>
  The response of \<^verbatim>\<open>getObjectToFile\<close> carries the headers of the object, of which the
  declared content length is kept. \<^verbatim>\<open>downloadCache\<close> does not read the response.
\<close>

record GetObjectToFileOutput =
  contentLength :: nat

record TosClient =
  headObject :: "string option \<Rightarrow> string \<Rightarrow> thrown option"
  getObjectToFile ::
    "string option \<Rightarrow> string \<Rightarrow> string \<Rightarrow> files \<Rightarrow> (thrown + GetObjectToFileOutput) \<times> files"
  putObjectFromFile :: "string option \<Rightarrow> string \<Rightarrow> string \<Rightarrow> thrown option"

text \<open>What a run does besides returning: SDK calls and log lines, in order.\<close>

datatype event =
    HeadObject "string option" string
  | GetObjectToFile "string option" string string
  | PutObjectFromFile "string option" string string
  | ConsoleWarn string
  | ConsoleLog string string
  | CoreDebug string
  | CoreInfo string

record 'a run =
  result :: "thrown + 'a"
  trace :: "event list"

section \<open>contracts\<close>

record ArtifactCacheEntry =
  cacheKey :: "string option"
  scope :: "string option"
  cacheVersion :: "string option"
  creationTime :: "string option"
  objectKey :: "string option"

record ReserveCacheResponse =
  cacheId :: nat

text \<open>
  \<^verbatim>\<open>CompressionMethod\<close> is a string enum of \<^verbatim>\<open>constants.ts\<close>; its values are taken as
  the strings they are at run time.
\<close>

record InternalCacheOptions =
  compressionMethod :: "string option"
  enableCrossOsArchive :: "bool option"
  cacheSize :: "nat option"

text \<open>The optional chains \<^verbatim>\<open>options?.compressionMethod\<close> and \<^verbatim>\<open>options?.enableCrossOsArchive\<close>.\<close>

definition options_compressionMethod :: "InternalCacheOptions option \<Rightarrow> string option" where
  "options_compressionMethod options =
     (case options of None \<Rightarrow> None | Some opts \<Rightarrow> compressionMethod opts)"

definition options_enableCrossOsArchive :: "InternalCacheOptions option \<Rightarrow> bool option" where
  "options_enableCrossOsArchive options =
     (case options of None \<Rightarrow> None | Some opts \<Rightarrow> enableCrossOsArchive opts)"

section \<open>getCacheVersion\<close>

text \<open>
  Arrays are objects: a value of type \<^verbatim>\<open>string[]\<close> is a reference into the heap, and
  \<^verbatim>\<open>push\<close> updates the array in place. The heap is the list of the arrays allocated so
  far, a reference is an index into it. \<^verbatim>\<open>slice()\<close> allocates a new array with the same
  elements.
\<close>

type_synonym array_ref = nat
type_synonym heap = "string list list"

definition slice :: "heap \<Rightarrow> array_ref \<Rightarrow> array_ref \<times> heap" where
  "slice h a = (length h, h @ [h ! a])"

definition push :: "heap \<Rightarrow> array_ref \<Rightarrow> string \<Rightarrow> heap" where
  "push h a x = h[a := h ! a @ [x]]"

definition getCacheVersion_heap ::
  "environment \<Rightarrow> heap \<Rightarrow> array_ref \<Rightarrow> string option \<Rightarrow> bool option \<Rightarrow> string \<times> heap" where
  "getCacheVersion_heap env h paths compression crossOs =
     (let enableCross = (case crossOs of None \<Rightarrow> False | Some b \<Rightarrow> b);
          (components, h1) = slice h paths;
          h2 = (case compression of
                  None \<Rightarrow> h1
                | Some m \<Rightarrow> if m \<noteq> [] then push h1 components m else h1);
          h3 = (if platform env = ''win32'' \<and> \<not> enableCross
                then push h2 components ''windows-only'' else h2);
          h4 = push h3 components versionSalt
      in (sha256_hex (join (h4 ! components) ''|''), h4))"

text \<open>The call seen by a caller that passes the elements: the heap holds that one array.\<close>

definition getCacheVersion ::
  "environment \<Rightarrow> string list \<Rightarrow> string option \<Rightarrow> bool option \<Rightarrow> string" where
  "getCacheVersion env paths compression crossOs =
     fst (getCacheVersion_heap env [paths] 0 compression crossOs)"

section \<open>getCacheEntry\<close>

text \<open>The template literal of lines 69 and 129.\<close>

definition scopedObjectKey :: "environment \<Rightarrow> string \<Rightarrow> string" where
  "scopedObjectKey env name =
     ''caches/'' @ template_value (repo env) @ ''/'' @ template_value (ref env) @ ''/''
       @ template_value (workflowHash env) @ ''/'' @ name"

definition isNotFound :: "thrown \<Rightarrow> bool" where
  "isNotFound error = (case error of TosServerError _ status _ _ _ \<Rightarrow> status = 404 | _ \<Rightarrow> False)"

text \<open>
  The \<^verbatim>\<open>for\<close> loop over the keys: \<open>Some entry\<close> is the \<^verbatim>\<open>return\<close> inside the loop,
  \<open>None\<close> is falling out of it.
\<close>

fun getCacheEntry_loop ::
  "environment \<Rightarrow> TosClient \<Rightarrow> string \<Rightarrow> string list \<Rightarrow> ArtifactCacheEntry option \<times> event list" where
  "getCacheEntry_loop env client version [] = (None, [])"
| "getCacheEntry_loop env client version (key # keys) =
     (let objKey = scopedObjectKey env key in
      case headObject client (bucket env) objKey of
        None \<Rightarrow>
          (Some \<lparr>cacheKey = Some key, scope = None, cacheVersion = Some version,
                 creationTime = None, objectKey = Some objKey\<rparr>,
           [HeadObject (bucket env) objKey])
      | Some error \<Rightarrow>
          (let (found, later) = getCacheEntry_loop env client version keys in
           (found,
            HeadObject (bucket env) objKey
              # (if isNotFound error
                 then [ConsoleWarn (''Unable to find cache with key '' @ objKey @ ''.'')]
                 else [])
              @ later)))"

definition getCacheEntry ::
  "environment \<Rightarrow> TosClient \<Rightarrow> string list \<Rightarrow> string list \<Rightarrow> InternalCacheOptions option
     \<Rightarrow> ArtifactCacheEntry run" where
  "getCacheEntry env client keys paths options =
     (let version = getCacheVersion env paths
                      (options_compressionMethod options)
                      (options_enableCrossOsArchive options);
          (found, events) = getCacheEntry_loop env client version keys
      in case found of
           Some entry \<Rightarrow> \<lparr>result = Inr entry, trace = events\<rparr>
         | None \<Rightarrow>
             \<lparr>result = Inr \<lparr>cacheKey = None, scope = None, cacheVersion = Some version,
                             creationTime = None, objectKey = None\<rparr>,
              trace = events
                @ [ConsoleWarn (''Failed to find cache that matches keys: '' @ join keys '','')]\<rparr>)"

text \<open>The addresses queried by a run, in order.\<close>

fun probes :: "event list \<Rightarrow> string list" where
  "probes [] = []"
| "probes (HeadObject b k # es) = k # probes es"
| "probes (e # es) = probes es"

section \<open>downloadCache\<close>

text \<open>The \<^verbatim>\<open>options\<close> argument is not read.\<close>

definition downloadCache ::
  "environment \<Rightarrow> TosClient \<Rightarrow> string \<Rightarrow> string \<Rightarrow> files \<Rightarrow> unit run \<times> files" where
  "downloadCache env client objKey archivePath fs =
     (let (response, fs') = getObjectToFile client (bucket env) objKey archivePath fs in
      (\<lparr>result = (case response of Inr _ \<Rightarrow> Inr () | Inl error \<Rightarrow> Inl error),
        trace = [GetObjectToFile (bucket env) objKey archivePath]\<rparr>,
       fs'))"

section \<open>uploadFile and saveCache\<close>

definition handleError :: "thrown \<Rightarrow> event list" where
  "handleError error =
     (case error of
        TosClientError msg stack \<Rightarrow>
          [ConsoleLog ''Client Err Msg:'' msg, ConsoleLog ''Client Err Stack:'' stack]
      | TosServerError requestId status headers code msg \<Rightarrow>
          [ConsoleLog ''Request ID:'' requestId,
           ConsoleLog ''Response Status Code:'' (number_to_string status),
           ConsoleLog ''Response Header:'' headers,
           ConsoleLog ''Response Err Code:'' code,
           ConsoleLog ''Response Err Msg:'' msg]
      | OtherError shown \<Rightarrow> [ConsoleLog ''unexpected exception, message: '' shown])"

definition uploadFile :: "environment \<Rightarrow> TosClient \<Rightarrow> string \<Rightarrow> string \<Rightarrow> unit run" where
  "uploadFile env client cid archivePath =
     (let objectName = scopedObjectKey env cid in
      case putObjectFromFile client (bucket env) objectName archivePath of
        None \<Rightarrow>
          \<lparr>result = Inr (), trace = [PutObjectFromFile (bucket env) objectName archivePath]\<rparr>
      | Some error \<Rightarrow>
          \<lparr>result = Inr (),
           trace = PutObjectFromFile (bucket env) objectName archivePath # handleError error\<rparr>)"

text \<open>
  \<^verbatim>\<open>Math.round(cacheSize / (1024 * 1024))\<close>: the quotient by a power of two is exact, and
  \<^verbatim>\<open>Math.round\<close> rounds a half up.
\<close>

definition roundedMB :: "nat \<Rightarrow> nat" where
  "roundedMB archiveSize = (2 * archiveSize + 1024 * 1024) div (2 * (1024 * 1024))"

text \<open>
  \<^verbatim>\<open>utils.getArchiveFileSizeInBytes\<close> is of \<^verbatim>\<open>cacheUtils.ts\<close>, taken as the parameter
  \<open>sizeOf\<close>: the size of the file, or what it throws.
\<close>

definition saveCache ::
  "environment \<Rightarrow> TosClient \<Rightarrow> (string \<Rightarrow> thrown + nat) \<Rightarrow> string \<Rightarrow> string \<Rightarrow> unit run" where
  "saveCache env client sizeOf cid archivePath =
     (let upload = uploadFile env client cid archivePath;
          events = CoreDebug ''Upload cache'' # trace upload
      in case result upload of
           Inl error \<Rightarrow> \<lparr>result = Inl error, trace = events\<rparr>
         | Inr _ \<Rightarrow>
             (case sizeOf archivePath of
                Inl error \<Rightarrow>
                  \<lparr>result = Inl error, trace = events @ [CoreDebug ''Commiting cache'']\<rparr>
              | Inr archiveSize \<Rightarrow>
                  \<lparr>result = Inr (),
                   trace = events @
                     [CoreDebug ''Commiting cache'',
                      CoreInfo (''Cache Size: ~'' @ number_to_string (roundedMB archiveSize)
                                @ '' MB ('' @ number_to_string archiveSize @ '' B)''),
                      CoreInfo ''Cache saved successfully'']\<rparr>))"

section \<open>reserveCacheVolc and getContentRange\<close>

definition reserveCacheVolc ::
  "environment \<Rightarrow> string \<Rightarrow> string list \<Rightarrow> InternalCacheOptions option \<Rightarrow> ReserveCacheResponse" where
  "reserveCacheVolc env key paths options =
     (let version = getCacheVersion env paths
                      (options_compressionMethod options)
                      (options_enableCrossOsArchive options);
          cid = 1
      in \<lparr>cacheId = cid\<rparr>)"

definition getContentRange :: "nat \<Rightarrow> nat \<Rightarrow> string" where
  "getContentRange start end' =
     ''bytes '' @ number_to_string start @ ''-'' @ number_to_string end' @ ''/*''"

section \<open>Scenarios\<close>

text \<open>
  The environment of the end-to-end scenarios: repository \<open>r\<close>, ref \<open>main\<close>, workflow
  digest \<open>h\<close>, on a platform that is not Windows.
\<close>

definition scenario_env :: environment where
  "scenario_env = \<lparr>bucket = Some ''test-cache-action'', repo = Some ''r'',
                    workflowHash = Some ''h'', ref = Some ''main'', platform = ''linux''\<rparr>"

definition notFound :: thrown where
  "notFound = TosServerError ''req-404'' 404 ''{}'' ''NoSuchKey'' ''The specified key does not exist.''"

definition accessDenied :: thrown where
  "accessDenied = TosServerError ''req-403'' 403 ''{}'' ''AccessDenied'' ''Access Denied''"

text \<open>A client whose every call throws the given error.\<close>

definition failing_client :: "thrown \<Rightarrow> TosClient" where
  "failing_client error =
     \<lparr>headObject = (\<lambda>b k. Some error),
      getObjectToFile = (\<lambda>b k path fs. (Inl error, fs)),
      putObjectFromFile = (\<lambda>b k path. Some error)\<rparr>"

text \<open>A bucket that holds exactly the listed objects; any other address is answered by 404.\<close>

definition holding_client :: "string list \<Rightarrow> TosClient" where
  "holding_client objects =
     (failing_client notFound)
       \<lparr>headObject := (\<lambda>b k. if k \<in> set objects then None else Some notFound)\<rparr>"

text \<open>
  A download that declares four bytes, writes two of them to the destination and returns
  normally.
\<close>

definition truncating_client :: TosClient where
  "truncating_client =
     (failing_client notFound)
       \<lparr>getObjectToFile := (\<lambda>b k path fs. (Inr \<lparr>contentLength = 4\<rparr>, fs(path \<mapsto> [1, 2])))\<rparr>"

text \<open>A file system with one archive of 5 MB.\<close>

definition archive_sizes :: "string \<Rightarrow> thrown + nat" where
  "archive_sizes path =
     (if path = ''/tmp/cache.tzst'' then Inr 5242880
      else Inl (OtherError ''ENOENT: no such file or directory''))"

section \<open>Library facts\<close>

lemma length_hex32: "length (hex32 w) = 8"
  by (simp add: hex32_def)

lemma length_sha256_hex: "length (sha256_hex s) = 64"
  by (simp add: sha256_hex_def length_hex32 split: prod.splits)

subsection \<open>SHA-256 on two messages\<close>

text \<open>
  The digest of \<open>abc\<close>, the one-block example of the standard, and the digest of the
  string hashed in the first end-to-end scenario, computed round by round.
\<close>

lemma extend_schedule_numeral:
  "extend_schedule (numeral n) w =
     extend_schedule (pred_numeral n)
       (w @ [small_sigma1 (w ! (length w - 2)) + w ! (length w - 7)
             + small_sigma0 (w ! (length w - 15)) + w ! (length w - 16)])"
  by (simp add: numeral_eq_Suc)

lemma replicate_numeral_unfold: "replicate (numeral n) x = x # replicate (pred_numeral n) x"
  by (simp add: numeral_eq_Suc)

lemma sha_round_tuple:
  "sha_round (a, b, c, d, e, f, g, h) (k, w) =
     (h + big_sigma1 e + sha_ch e f g + k + w + (big_sigma0 a + sha_maj a b c), a, b, c,
      d + (h + big_sigma1 e + sha_ch e f g + k + w), e, f, g)"
  by (simp add: sha_round_def Let_def)

lemmas sha_functions = big_sigma0_def big_sigma1_def sha_ch_def sha_maj_def rotr_def

lemma abc_words:
  "be_words (sha_pad (map of_char ''abc'')) = [
      1633837952, 0, 0, 0, 0, 0, 0, 0, 0, 0, 0, 0, 0, 0, 0, 24]"
  by (simp add: sha_pad_def be64_def replicate_numeral_unfold)

lemma abc_schedule:
  "extend_schedule 48 [
      1633837952, 0, 0, 0, 0, 0, 0, 0, 0, 0, 0, 0, 0, 0, 0, 24] = [
      1633837952, 0, 0, 0, 0, 0, 0, 0, 0, 0, 0, 0, 0, 0, 0, 24, 1633837952, 983040,
      2108187653, 1610613702, 1050508152, 25426944, 316456923, 3806512014, 3357629466,
      3073800610, 3854317833, 845560923, 2636160359, 3968280267, 1881225380, 3552024379,
      2482346367, 996719219, 2952069057, 4043988066, 176896406, 1924104970, 2483675966,
      610538786, 2672279444, 4037431130, 1042573945, 657669027, 206005234, 2215296807,
      2049510749, 106709978, 4215179723, 3430291419, 3118885940, 2845390439, 2226839261,
      3256115900, 344409900, 2987358873, 4015503821, 3957764664, 2682456414, 2025622859,
      2755645205, 1720397816, 4004225740, 313650667]"
  by (simp add: extend_schedule_numeral small_sigma0_def small_sigma1_def rotr_def)

lemma abc_rounds:
  "foldl sha_round sha_init (zip sha_k [
      1633837952, 0, 0, 0, 0, 0, 0, 0, 0, 0, 0, 0, 0, 0, 0, 24, 1633837952, 983040,
      2108187653, 1610613702, 1050508152, 25426944, 316456923, 3806512014, 3357629466,
      3073800610, 3854317833, 845560923, 2636160359, 3968280267, 1881225380, 3552024379,
      2482346367, 996719219, 2952069057, 4043988066, 176896406, 1924104970, 2483675966,
      610538786, 2672279444, 4037431130, 1042573945, 657669027, 206005234, 2215296807,
      2049510749, 106709978, 4215179723, 3430291419, 3118885940, 2845390439, 2226839261,
      3256115900, 344409900, 2987358873, 4015503821, 3957764664, 2682456414, 2025622859,
      2755645205, 1720397816, 4004225740, 313650667]) =
     (1349398616, 3550093669, 80891244, 3093179625, 1593118500, 4212265488, 2492278198, 2518632596)"
proof -
  have r0: "sha_round (1779033703, 3144134277, 1013904242, 2773480762, 1359893119, 2600822924, 528734635, 1541459225)
      (1116352408, 1633837952) =
      (1567288269, 1779033703, 3144134277, 1013904242, 4197074466, 1359893119, 2600822924, 528734635)"
    by (simp add: sha_round_tuple sha_functions)
  have r1: "sha_round (1567288269, 1779033703, 3144134277, 1013904242, 4197074466, 1359893119, 2600822924, 528734635)
      (1899447441, 0) =
      (1516951981, 1567288269, 1779033703, 3144134277, 2026797449, 4197074466, 1359893119, 2600822924)"
    by (simp add: sha_round_tuple sha_functions)
  have r2: "sha_round (1516951981, 1567288269, 1779033703, 3144134277, 2026797449, 4197074466, 1359893119, 2600822924)
      (3049323471, 0) =
      (3368241063, 1516951981, 1567288269, 1779033703, 4180228587, 2026797449, 4197074466, 1359893119)"
    by (simp add: sha_round_tuple sha_functions)
  have r3: "sha_round (3368241063, 1516951981, 1567288269, 1779033703, 4180228587, 2026797449, 4197074466, 1359893119)
      (3921009573, 0) =
      (3578852966, 3368241063, 1516951981, 1567288269, 618661968, 4180228587, 2026797449, 4197074466)"
    by (simp add: sha_round_tuple sha_functions)
  have r4: "sha_round (3578852966, 3368241063, 1516951981, 1567288269, 618661968, 4180228587, 2026797449, 4197074466)
      (961987163, 0) =
      (71342698, 3578852966, 3368241063, 1516951981, 1135452741, 618661968, 4180228587, 2026797449)"
    by (simp add: sha_round_tuple sha_functions)
  have r5: "sha_round (71342698, 3578852966, 3368241063, 1516951981, 1135452741, 618661968, 4180228587, 2026797449)
      (1508970993, 0) =
      (725748213, 71342698, 3578852966, 3368241063, 1900175533, 1135452741, 618661968, 4180228587)"
    by (simp add: sha_round_tuple sha_functions)
  have r6: "sha_round (725748213, 71342698, 3578852966, 3368241063, 1900175533, 1135452741, 618661968, 4180228587)
      (2453635748, 0) =
      (3842179968, 725748213, 71342698, 3578852966, 2603066369, 1900175533, 1135452741, 618661968)"
    by (simp add: sha_round_tuple sha_functions)
  have r7: "sha_round (3842179968, 725748213, 71342698, 3578852966, 2603066369, 1900175533, 1135452741, 618661968)
      (2870763221, 0) =
      (2241887071, 3842179968, 725748213, 71342698, 207977081, 2603066369, 1900175533, 1135452741)"
    by (simp add: sha_round_tuple sha_functions)
  have r8: "sha_round (2241887071, 3842179968, 725748213, 71342698, 207977081, 2603066369, 1900175533, 1135452741)
      (3624381080, 0) =
      (2382687417, 2241887071, 3842179968, 725748213, 852110732, 207977081, 2603066369, 1900175533)"
    by (simp add: sha_round_tuple sha_functions)
  have r9: "sha_round (2382687417, 2241887071, 3842179968, 725748213, 852110732, 207977081, 2603066369, 1900175533)
      (310598401, 0) =
      (2357671019, 2382687417, 2241887071, 3842179968, 482944406, 852110732, 207977081, 2603066369)"
    by (simp add: sha_round_tuple sha_functions)
  have r10: "sha_round (2357671019, 2382687417, 2241887071, 3842179968, 482944406, 852110732, 207977081, 2603066369)
      (607225278, 0) =
      (1201185780, 2357671019, 2382687417, 2241887071, 1131095016, 482944406, 852110732, 207977081)"
    by (simp add: sha_round_tuple sha_functions)
  have r11: "sha_round (1201185780, 2357671019, 2382687417, 2241887071, 1131095016, 482944406, 852110732, 207977081)
      (1426881987, 0) =
      (4146054569, 1201185780, 2357671019, 2382687417, 2171590377, 1131095016, 482944406, 852110732)"
    by (simp add: sha_round_tuple sha_functions)
  have r12: "sha_round (4146054569, 1201185780, 2357671019, 2382687417, 2171590377, 1131095016, 482944406, 852110732)
      (1925078388, 0) =
      (2274437520, 4146054569, 1201185780, 2357671019, 509051416, 2171590377, 1131095016, 482944406)"
    by (simp add: sha_round_tuple sha_functions)
  have r13: "sha_round (2274437520, 4146054569, 1201185780, 2357671019, 509051416, 2171590377, 1131095016, 482944406)
      (2162078206, 0) =
      (3643992854, 2274437520, 4146054569, 1201185780, 1952073950, 509051416, 2171590377, 1131095016)"
    by (simp add: sha_round_tuple sha_functions)
  have r14: "sha_round (3643992854, 2274437520, 4146054569, 1201185780, 1952073950, 509051416, 2171590377, 1131095016)
      (2614888103, 0) =
      (3227803614, 3643992854, 2274437520, 4146054569, 194179596, 1952073950, 509051416, 2171590377)"
    by (simp add: sha_round_tuple sha_functions)
  have r15: "sha_round (3227803614, 3643992854, 2274437520, 4146054569, 194179596, 1952073950, 509051416, 2171590377)
      (3248222580, 24) =
      (2969183118, 3227803614, 3643992854, 2274437520, 123276749, 194179596, 1952073950, 509051416)"
    by (simp add: sha_round_tuple sha_functions)
  have r16: "sha_round (2969183118, 3227803614, 3643992854, 2274437520, 123276749, 194179596, 1952073950, 509051416)
      (3835390401, 1633837952) =
      (567974555, 2969183118, 3227803614, 3643992854, 2150900380, 123276749, 194179596, 1952073950)"
    by (simp add: sha_round_tuple sha_functions)
  have r17: "sha_round (567974555, 2969183118, 3227803614, 3643992854, 2150900380, 123276749, 194179596, 1952073950)
      (4022224774, 983040) =
      (3271285201, 567974555, 2969183118, 3227803614, 2221859924, 2150900380, 123276749, 194179596)"
    by (simp add: sha_round_tuple sha_functions)
  have r18: "sha_round (3271285201, 567974555, 2969183118, 3227803614, 2221859924, 2150900380, 123276749, 194179596)
      (264347078, 2108187653) =
      (4269243327, 3271285201, 567974555, 2969183118, 3431569761, 2221859924, 2150900380, 123276749)"
    by (simp add: sha_round_tuple sha_functions)
  have r19: "sha_round (4269243327, 3271285201, 567974555, 2969183118, 3431569761, 2221859924, 2150900380, 123276749)
      (604807628, 1610613702) =
      (3790736435, 4269243327, 3271285201, 567974555, 2959311225, 3431569761, 2221859924, 2150900380)"
    by (simp add: sha_round_tuple sha_functions)
  have r20: "sha_round (3790736435, 4269243327, 3271285201, 567974555, 2959311225, 3431569761, 2221859924, 2150900380)
      (770255983, 1050508152) =
      (2647034723, 3790736435, 4269243327, 3271285201, 2329577776, 2959311225, 3431569761, 2221859924)"
    by (simp add: sha_round_tuple sha_functions)
  have r21: "sha_round (2647034723, 3790736435, 4269243327, 3271285201, 2329577776, 2959311225, 3431569761, 2221859924)
      (1249150122, 25426944) =
      (3261099373, 2647034723, 3790736435, 4269243327, 3777329520, 2329577776, 2959311225, 3431569761)"
    by (simp add: sha_round_tuple sha_functions)
  have r22: "sha_round (3261099373, 2647034723, 3790736435, 4269243327, 3777329520, 2329577776, 2959311225, 3431569761)
      (1555081692, 316456923) =
      (2812502591, 3261099373, 2647034723, 3790736435, 1240797514, 3777329520, 2329577776, 2959311225)"
    by (simp add: sha_round_tuple sha_functions)
  have r23: "sha_round (2812502591, 3261099373, 2647034723, 3790736435, 1240797514, 3777329520, 2329577776, 2959311225)
      (1996064986, 3806512014) =
      (3319086477, 2812502591, 3261099373, 2647034723, 2856829767, 1240797514, 3777329520, 2329577776)"
    by (simp add: sha_round_tuple sha_functions)
  have r24: "sha_round (3319086477, 2812502591, 3261099373, 2647034723, 2856829767, 1240797514, 3777329520, 2329577776)
      (2554220882, 3357629466) =
      (472655928, 3319086477, 2812502591, 3261099373, 673443729, 2856829767, 1240797514, 3777329520)"
    by (simp add: sha_round_tuple sha_functions)
  have r25: "sha_round (472655928, 3319086477, 2812502591, 3261099373, 673443729, 2856829767, 1240797514, 3777329520)
      (2821834349, 3073800610) =
      (3454534525, 472655928, 3319086477, 2812502591, 339230094, 673443729, 2856829767, 1240797514)"
    by (simp add: sha_round_tuple sha_functions)
  have r26: "sha_round (3454534525, 472655928, 3319086477, 2812502591, 339230094, 673443729, 2856829767, 1240797514)
      (2952996808, 3854317833) =
      (3056518332, 3454534525, 472655928, 3319086477, 3343672598, 339230094, 673443729, 2856829767)"
    by (simp add: sha_round_tuple sha_functions)
  have r27: "sha_round (3056518332, 3454534525, 472655928, 3319086477, 3343672598, 339230094, 673443729, 2856829767)
      (3210313671, 845560923) =
      (2010346792, 3056518332, 3454534525, 472655928, 3992961016, 3343672598, 339230094, 673443729)"
    by (simp add: sha_round_tuple sha_functions)
  have r28: "sha_round (2010346792, 3056518332, 3454534525, 472655928, 3992961016, 3343672598, 339230094, 673443729)
      (3336571891, 2636160359) =
      (909411017, 2010346792, 3056518332, 3454534525, 1628611511, 3992961016, 3343672598, 339230094)"
    by (simp add: sha_round_tuple sha_functions)
  have r29: "sha_round (909411017, 2010346792, 3056518332, 3454534525, 1628611511, 3992961016, 3343672598, 339230094)
      (3584528711, 3968280267) =
      (2684750640, 909411017, 2010346792, 3056518332, 2917635127, 1628611511, 3992961016, 3343672598)"
    by (simp add: sha_round_tuple sha_functions)
  have r30: "sha_round (2684750640, 909411017, 2010346792, 3056518332, 2917635127, 1628611511, 3992961016, 3343672598)
      (113926993, 1881225380) =
      (3935906338, 2684750640, 909411017, 2010346792, 17410874, 2917635127, 1628611511, 3992961016)"
    by (simp add: sha_round_tuple sha_functions)
  have r31: "sha_round (3935906338, 2684750640, 909411017, 2010346792, 17410874, 2917635127, 1628611511, 3992961016)
      (338241895, 3552024379) =
      (1941126133, 3935906338, 2684750640, 909411017, 3126399250, 17410874, 2917635127, 1628611511)"
    by (simp add: sha_round_tuple sha_functions)
  have r32: "sha_round (1941126133, 3935906338, 2684750640, 909411017, 3126399250, 17410874, 2917635127, 1628611511)
      (666307205, 2482346367) =
      (2564891911, 1941126133, 3935906338, 2684750640, 2631529974, 3126399250, 17410874, 2917635127)"
    by (simp add: sha_round_tuple sha_functions)
  have r33: "sha_round (2564891911, 1941126133, 3935906338, 2684750640, 2631529974, 3126399250, 17410874, 2917635127)
      (773529912, 996719219) =
      (4267724277, 2564891911, 1941126133, 3935906338, 1495571923, 2631529974, 3126399250, 17410874)"
    by (simp add: sha_round_tuple sha_functions)
  have r34: "sha_round (4267724277, 2564891911, 1941126133, 3935906338, 1495571923, 2631529974, 3126399250, 17410874)
      (1294757372, 2952069057) =
      (2846323596, 4267724277, 2564891911, 1941126133, 140458035, 1495571923, 2631529974, 3126399250)"
    by (simp add: sha_round_tuple sha_functions)
  have r35: "sha_round (2846323596, 4267724277, 2564891911, 1941126133, 140458035, 1495571923, 2631529974, 3126399250)
      (1396182291, 4043988066) =
      (1705037796, 2846323596, 4267724277, 2564891911, 4105175766, 140458035, 1495571923, 2631529974)"
    by (simp add: sha_round_tuple sha_functions)
  have r36: "sha_round (1705037796, 2846323596, 4267724277, 2564891911, 4105175766, 140458035, 1495571923, 2631529974)
      (1695183700, 176896406) =
      (1101421745, 1705037796, 2846323596, 4267724277, 124953195, 4105175766, 140458035, 1495571923)"
    by (simp add: sha_round_tuple sha_functions)
  have r37: "sha_round (1101421745, 1705037796, 2846323596, 4267724277, 124953195, 4105175766, 140458035, 1495571923)
      (1986661051, 1924104970) =
      (887035396, 1101421745, 1705037796, 2846323596, 2768741693, 124953195, 4105175766, 140458035)"
    by (simp add: sha_round_tuple sha_functions)
  have r38: "sha_round (887035396, 1101421745, 1705037796, 2846323596, 2768741693, 124953195, 4105175766, 140458035)
      (2177026350, 2483675966) =
      (1841658506, 887035396, 1101421745, 1705037796, 4034403272, 2768741693, 124953195, 4105175766)"
    by (simp add: sha_round_tuple sha_functions)
  have r39: "sha_round (1841658506, 887035396, 1101421745, 1705037796, 4034403272, 2768741693, 124953195, 4105175766)
      (2456956037, 610538786) =
      (2045405306, 1841658506, 887035396, 1101421745, 519815328, 4034403272, 2768741693, 124953195)"
    by (simp add: sha_round_tuple sha_functions)
  have r40: "sha_round (2045405306, 1841658506, 887035396, 1101421745, 519815328, 4034403272, 2768741693, 124953195)
      (2730485921, 2672279444) =
      (3597076326, 2045405306, 1841658506, 887035396, 641019235, 519815328, 4034403272, 2768741693)"
    by (simp add: sha_round_tuple sha_functions)
  have r41: "sha_round (3597076326, 2045405306, 1841658506, 887035396, 641019235, 519815328, 4034403272, 2768741693)
      (2820302411, 4037431130) =
      (3745932591, 3597076326, 2045405306, 1841658506, 2206934801, 641019235, 519815328, 4034403272)"
    by (simp add: sha_round_tuple sha_functions)
  have r42: "sha_round (3745932591, 3597076326, 2045405306, 1841658506, 2206934801, 641019235, 519815328, 4034403272)
      (3259730800, 1042573945) =
      (397020670, 3745932591, 3597076326, 2045405306, 3737995029, 2206934801, 641019235, 519815328)"
    by (simp add: sha_round_tuple sha_functions)
  have r43: "sha_round (397020670, 3745932591, 3597076326, 2045405306, 3737995029, 2206934801, 641019235, 519815328)
      (3345764771, 657669027) =
      (2638983059, 397020670, 3745932591, 3597076326, 4255271982, 3737995029, 2206934801, 641019235)"
    by (simp add: sha_round_tuple sha_functions)
  have r44: "sha_round (2638983059, 397020670, 3745932591, 3597076326, 4255271982, 3737995029, 2206934801, 641019235)
      (3516065817, 206005234) =
      (643991573, 2638983059, 397020670, 3745932591, 2819559920, 4255271982, 3737995029, 2206934801)"
    by (simp add: sha_round_tuple sha_functions)
  have r45: "sha_round (643991573, 2638983059, 397020670, 3745932591, 2819559920, 4255271982, 3737995029, 2206934801)
      (3600352804, 2215296807) =
      (1923828625, 643991573, 2638983059, 397020670, 3077922209, 2819559920, 4255271982, 3737995029)"
    by (simp add: sha_round_tuple sha_functions)
  have r46: "sha_round (1923828625, 643991573, 2638983059, 397020670, 3077922209, 2819559920, 4255271982, 3737995029)
      (4094571909, 2049510749) =
      (2706117808, 1923828625, 643991573, 2638983059, 3581645993, 3077922209, 2819559920, 4255271982)"
    by (simp add: sha_round_tuple sha_functions)
  have r47: "sha_round (2706117808, 1923828625, 643991573, 2638983059, 3581645993, 3077922209, 2819559920, 4255271982)
      (275423344, 106709978) =
      (1098003085, 2706117808, 1923828625, 643991573, 4274981830, 3581645993, 3077922209, 2819559920)"
    by (simp add: sha_round_tuple sha_functions)
  have r48: "sha_round (1098003085, 2706117808, 1923828625, 643991573, 4274981830, 3581645993, 3077922209, 2819559920)
      (430227734, 4215179723) =
      (91585771, 1098003085, 2706117808, 1923828625, 3178315832, 4274981830, 3581645993, 3077922209)"
    by (simp add: sha_round_tuple sha_functions)
  have r49: "sha_round (91585771, 1098003085, 2706117808, 1923828625, 3178315832, 4274981830, 3581645993, 3077922209)
      (506948616, 3430291419) =
      (4045142696, 91585771, 1098003085, 2706117808, 1851537676, 3178315832, 4274981830, 3581645993)"
    by (simp add: sha_round_tuple sha_functions)
  have r50: "sha_round (4045142696, 91585771, 1098003085, 2706117808, 1851537676, 3178315832, 4274981830, 3581645993)
      (659060556, 3118885940) =
      (2047150241, 4045142696, 91585771, 1098003085, 1391578359, 1851537676, 3178315832, 4274981830)"
    by (simp add: sha_round_tuple sha_functions)
  have r51: "sha_round (2047150241, 4045142696, 91585771, 1098003085, 1391578359, 1851537676, 3178315832, 4274981830)
      (883997877, 2845390439) =
      (2288941602, 2047150241, 4045142696, 91585771, 1227037726, 1391578359, 1851537676, 3178315832)"
    by (simp add: sha_round_tuple sha_functions)
  have r52: "sha_round (2288941602, 2047150241, 4045142696, 91585771, 1227037726, 1391578359, 1851537676, 3178315832)
      (958139571, 2226839261) =
      (270520975, 2288941602, 2047150241, 4045142696, 1386118400, 1227037726, 1391578359, 1851537676)"
    by (simp add: sha_round_tuple sha_functions)
  have r53: "sha_round (270520975, 2288941602, 2047150241, 4045142696, 1386118400, 1227037726, 1391578359, 1851537676)
      (1322822218, 3256115900) =
      (4117770203, 270520975, 2288941602, 2047150241, 2672265155, 1386118400, 1227037726, 1391578359)"
    by (simp add: sha_round_tuple sha_functions)
  have r54: "sha_round (4117770203, 270520975, 2288941602, 2047150241, 2672265155, 1386118400, 1227037726, 1391578359)
      (1537002063, 344409900) =
      (1053056219, 4117770203, 270520975, 2288941602, 3842906959, 2672265155, 1386118400, 1227037726)"
    by (simp add: sha_round_tuple sha_functions)
  have r55: "sha_round (1053056219, 4117770203, 270520975, 2288941602, 3842906959, 2672265155, 1386118400, 1227037726)
      (1747873779, 2987358873) =
      (952932627, 1053056219, 4117770203, 270520975, 1422599787, 3842906959, 2672265155, 1386118400)"
    by (simp add: sha_round_tuple sha_functions)
  have r56: "sha_round (952932627, 1053056219, 4117770203, 270520975, 1422599787, 3842906959, 2672265155, 1386118400)
      (1955562222, 4015503821) =
      (4241590395, 952932627, 1053056219, 4117770203, 2606665836, 1422599787, 3842906959, 2672265155)"
    by (simp add: sha_round_tuple sha_functions)
  have r57: "sha_round (4241590395, 952932627, 1053056219, 4117770203, 2606665836, 1422599787, 3842906959, 2672265155)
      (2024104815, 3957764664) =
      (3227702383, 4241590395, 952932627, 1053056219, 2118385806, 2606665836, 1422599787, 3842906959)"
    by (simp add: sha_round_tuple sha_functions)
  have r58: "sha_round (3227702383, 4241590395, 952932627, 1053056219, 2118385806, 2606665836, 1422599787, 3842906959)
      (2227730452, 2682456414) =
      (4290184306, 3227702383, 4241590395, 952932627, 1837350854, 2118385806, 2606665836, 1422599787)"
    by (simp add: sha_round_tuple sha_functions)
  have r59: "sha_round (4290184306, 3227702383, 4241590395, 952932627, 1837350854, 2118385806, 2606665836, 1422599787)
      (2361852424, 2025622859) =
      (3064893439, 4290184306, 3227702383, 4241590395, 2988158269, 1837350854, 2118385806, 2606665836)"
    by (simp add: sha_round_tuple sha_functions)
  have r60: "sha_round (3064893439, 4290184306, 3227702383, 4241590395, 2988158269, 1837350854, 2118385806, 2606665836)
      (2428436474, 2755645205) =
      (3093179625, 3064893439, 4290184306, 3227702383, 2518632596, 2988158269, 1837350854, 2118385806)"
    by (simp add: sha_round_tuple sha_functions)
  have r61: "sha_round (3093179625, 3064893439, 4290184306, 3227702383, 2518632596, 2988158269, 1837350854, 2118385806)
      (2756734187, 1720397816) =
      (80891244, 3093179625, 3064893439, 4290184306, 2492278198, 2518632596, 2988158269, 1837350854)"
    by (simp add: sha_round_tuple sha_functions)
  have r62: "sha_round (80891244, 3093179625, 3064893439, 4290184306, 2492278198, 2518632596, 2988158269, 1837350854)
      (3204031479, 4004225740) =
      (3550093669, 80891244, 3093179625, 3064893439, 4212265488, 2492278198, 2518632596, 2988158269)"
    by (simp add: sha_round_tuple sha_functions)
  have r63: "sha_round (3550093669, 80891244, 3093179625, 3064893439, 4212265488, 2492278198, 2518632596, 2988158269)
      (3329325298, 313650667) =
      (1349398616, 3550093669, 80891244, 3093179625, 1593118500, 4212265488, 2492278198, 2518632596)"
    by (simp add: sha_round_tuple sha_functions)
  show ?thesis
    unfolding sha_init_def sha_k_def
    by (simp only: zip_Cons_Cons zip_Nil foldl_Cons foldl_Nil
          r0 r1 r2 r3 r4 r5 r6 r7 r8 r9 r10 r11 r12 r13 r14 r15
          r16 r17 r18 r19 r20 r21 r22 r23 r24 r25 r26 r27 r28 r29 r30 r31
          r32 r33 r34 r35 r36 r37 r38 r39 r40 r41 r42 r43 r44 r45 r46 r47
          r48 r49 r50 r51 r52 r53 r54 r55 r56 r57 r58 r59 r60 r61 r62 r63)
qed

lemma abc_digest:
  "sha256_hex ''abc'' = ''ba7816bf8f01cfea414140de5dae2223b00361a396177a9cb410ff61f20015ad''"
proof -
  have "sha256 (map of_char ''abc'') =
          (3128432319, 2399260650, 1094795486, 1571693091, 2953011619, 2518121116, 3021012833, 4060091821)"
    unfolding sha256_def abc_words
    by (simp add: sha_blocks.simps sha_compress_def abc_schedule abc_rounds)
       (simp add: sha_init_def sha_add_def)
  then show ?thesis
    by (simp add: sha256_hex_def hex32_def hex_char_def)
qed

lemma scenario1_words:
  "be_words (sha_pad (map of_char ''/a|/b|zstd|1.0'')) = [
      794917935, 1652324979, 1952742449, 774930432, 0, 0, 0, 0, 0, 0, 0, 0, 0, 0, 0, 112]"
  by (simp add: sha_pad_def be64_def replicate_numeral_unfold)

lemma scenario1_schedule:
  "extend_schedule 48 [
      794917935, 1652324979, 1952742449, 774930432, 0, 0, 0, 0, 0, 0, 0, 0, 0, 0, 0, 112] = [
      794917935, 1652324979, 1952742449, 774930432, 0, 0, 0, 0, 0, 0, 0, 0, 0, 0, 0, 112,
      595143508, 3592066266, 1254572630, 1190410091, 1232297451, 2638837417, 3311047088,
      3105872548, 4042899836, 1626328752, 530714494, 1745446276, 3818953551, 1673743628,
      4164075572, 2805329688, 3336944615, 3042714334, 4044949976, 3363114273, 1885054798,
      2580598167, 3168554045, 2533808639, 4118577584, 2248364918, 362445897, 1102695070,
      3071750034, 3282510700, 1606378181, 3427143401, 1301122198, 2135465149, 3295910445,
      1486577358, 30502760, 1042698253, 2133656316, 633760834, 3205850856, 1436636026,
      3553641200, 3216681118, 662217187, 2655081050, 334772051, 1420573813]"
  by (simp add: extend_schedule_numeral small_sigma0_def small_sigma1_def rotr_def)

lemma scenario1_rounds:
  "foldl sha_round sha_init (zip sha_k [
      794917935, 1652324979, 1952742449, 774930432, 0, 0, 0, 0, 0, 0, 0, 0, 0, 0, 0, 112,
      595143508, 3592066266, 1254572630, 1190410091, 1232297451, 2638837417, 3311047088,
      3105872548, 4042899836, 1626328752, 530714494, 1745446276, 3818953551, 1673743628,
      4164075572, 2805329688, 3336944615, 3042714334, 4044949976, 3363114273, 1885054798,
      2580598167, 3168554045, 2533808639, 4118577584, 2248364918, 362445897, 1102695070,
      3071750034, 3282510700, 1606378181, 3427143401, 1301122198, 2135465149, 3295910445,
      1486577358, 30502760, 1042698253, 2133656316, 633760834, 3205850856, 1436636026,
      3553641200, 3216681118, 662217187, 2655081050, 334772051, 1420573813]) =
     (1218360064, 1816895972, 112044185, 3947346370, 1359598454, 386446616, 2593782702, 1691560477)"
proof -
  have r0: "sha_round (1779033703, 3144134277, 1013904242, 2773480762, 1359893119, 2600822924, 528734635, 1541459225)
      (1116352408, 794917935) =
      (728368252, 1779033703, 3144134277, 1013904242, 3358154449, 1359893119, 2600822924, 528734635)"
    by (simp add: sha_round_tuple sha_functions)
  have r1: "sha_round (728368252, 1779033703, 3144134277, 1013904242, 3358154449, 1359893119, 2600822924, 528734635)
      (1899447441, 1652324979) =
      (2089854215, 728368252, 1779033703, 3144134277, 208258866, 3358154449, 1359893119, 2600822924)"
    by (simp add: sha_round_tuple sha_functions)
  have r2: "sha_round (2089854215, 728368252, 1779033703, 3144134277, 208258866, 3358154449, 1359893119, 2600822924)
      (3049323471, 1952742449) =
      (1484938920, 2089854215, 728368252, 1779033703, 4099250320, 208258866, 3358154449, 1359893119)"
    by (simp add: sha_round_tuple sha_functions)
  have r3: "sha_round (1484938920, 2089854215, 728368252, 1779033703, 4099250320, 208258866, 3358154449, 1359893119)
      (3921009573, 774930432) =
      (1392312358, 1484938920, 2089854215, 728368252, 1517023111, 4099250320, 208258866, 3358154449)"
    by (simp add: sha_round_tuple sha_functions)
  have r4: "sha_round (1392312358, 1484938920, 2089854215, 728368252, 1517023111, 4099250320, 208258866, 3358154449)
      (961987163, 0) =
      (3897826842, 1392312358, 1484938920, 2089854215, 1503711174, 1517023111, 4099250320, 208258866)"
    by (simp add: sha_round_tuple sha_functions)
  have r5: "sha_round (3897826842, 1392312358, 1484938920, 2089854215, 1503711174, 1517023111, 4099250320, 208258866)
      (1508970993, 0) =
      (136927604, 3897826842, 1392312358, 1484938920, 288076234, 1503711174, 1517023111, 4099250320)"
    by (simp add: sha_round_tuple sha_functions)
  have r6: "sha_round (136927604, 3897826842, 1392312358, 1484938920, 288076234, 1503711174, 1517023111, 4099250320)
      (2453635748, 0) =
      (471939361, 136927604, 3897826842, 1392312358, 3210131548, 288076234, 1503711174, 1517023111)"
    by (simp add: sha_round_tuple sha_functions)
  have r7: "sha_round (471939361, 136927604, 3897826842, 1392312358, 3210131548, 288076234, 1503711174, 1517023111)
      (2870763221, 0) =
      (1013393648, 471939361, 136927604, 3897826842, 2086593717, 3210131548, 288076234, 1503711174)"
    by (simp add: sha_round_tuple sha_functions)
  have r8: "sha_round (1013393648, 471939361, 136927604, 3897826842, 2086593717, 3210131548, 288076234, 1503711174)
      (3624381080, 0) =
      (3416914448, 1013393648, 471939361, 136927604, 3282105542, 2086593717, 3210131548, 288076234)"
    by (simp add: sha_round_tuple sha_functions)
  have r9: "sha_round (3416914448, 1013393648, 471939361, 136927604, 3282105542, 2086593717, 3210131548, 288076234)
      (310598401, 0) =
      (1431840552, 3416914448, 1013393648, 471939361, 4225492871, 3282105542, 2086593717, 3210131548)"
    by (simp add: sha_round_tuple sha_functions)
  have r10: "sha_round (1431840552, 3416914448, 1013393648, 471939361, 4225492871, 3282105542, 2086593717, 3210131548)
      (607225278, 0) =
      (1474438781, 1431840552, 3416914448, 1013393648, 3390190352, 4225492871, 3282105542, 2086593717)"
    by (simp add: sha_round_tuple sha_functions)
  have r11: "sha_round (1474438781, 1431840552, 3416914448, 1013393648, 3390190352, 4225492871, 3282105542, 2086593717)
      (1426881987, 0) =
      (196785974, 1474438781, 1431840552, 3416914448, 28177949, 3390190352, 4225492871, 3282105542)"
    by (simp add: sha_round_tuple sha_functions)
  have r12: "sha_round (196785974, 1474438781, 1431840552, 3416914448, 28177949, 3390190352, 4225492871, 3282105542)
      (1925078388, 0) =
      (3146474020, 196785974, 1474438781, 1431840552, 1572408514, 28177949, 3390190352, 4225492871)"
    by (simp add: sha_round_tuple sha_functions)
  have r13: "sha_round (3146474020, 196785974, 1474438781, 1431840552, 1572408514, 28177949, 3390190352, 4225492871)
      (2162078206, 0) =
      (2082127681, 3146474020, 196785974, 1474438781, 2742626809, 1572408514, 28177949, 3390190352)"
    by (simp add: sha_round_tuple sha_functions)
  have r14: "sha_round (2082127681, 3146474020, 196785974, 1474438781, 2742626809, 1572408514, 28177949, 3390190352)
      (2614888103, 0) =
      (3630469607, 2082127681, 3146474020, 196785974, 616281675, 2742626809, 1572408514, 28177949)"
    by (simp add: sha_round_tuple sha_functions)
  have r15: "sha_round (3630469607, 2082127681, 3146474020, 196785974, 616281675, 2742626809, 1572408514, 28177949)
      (3248222580, 112) =
      (3625687208, 3630469607, 2082127681, 3146474020, 7021629, 616281675, 2742626809, 1572408514)"
    by (simp add: sha_round_tuple sha_functions)
  have r16: "sha_round (3625687208, 3630469607, 2082127681, 3146474020, 7021629, 616281675, 2742626809, 1572408514)
      (3835390401, 595143508) =
      (3296308875, 3625687208, 3630469607, 2082127681, 180875576, 7021629, 616281675, 2742626809)"
    by (simp add: sha_round_tuple sha_functions)
  have r17: "sha_round (3296308875, 3625687208, 3630469607, 2082127681, 180875576, 7021629, 616281675, 2742626809)
      (4022224774, 3592066266) =
      (1863583804, 3296308875, 3625687208, 3630469607, 2931476308, 180875576, 7021629, 616281675)"
    by (simp add: sha_round_tuple sha_functions)
  have r18: "sha_round (1863583804, 3296308875, 3625687208, 3630469607, 2931476308, 180875576, 7021629, 616281675)
      (264347078, 1254572630) =
      (1165304173, 1863583804, 3296308875, 3625687208, 1203347353, 2931476308, 180875576, 7021629)"
    by (simp add: sha_round_tuple sha_functions)
  have r19: "sha_round (1165304173, 1863583804, 3296308875, 3625687208, 1203347353, 2931476308, 180875576, 7021629)
      (604807628, 1190410091) =
      (2576138662, 1165304173, 1863583804, 3296308875, 2642434874, 1203347353, 2931476308, 180875576)"
    by (simp add: sha_round_tuple sha_functions)
  have r20: "sha_round (2576138662, 1165304173, 1863583804, 3296308875, 2642434874, 1203347353, 2931476308, 180875576)
      (770255983, 1232297451) =
      (3696012972, 2576138662, 1165304173, 1863583804, 3143693730, 2642434874, 1203347353, 2931476308)"
    by (simp add: sha_round_tuple sha_functions)
  have r21: "sha_round (3696012972, 2576138662, 1165304173, 1863583804, 3143693730, 2642434874, 1203347353, 2931476308)
      (1249150122, 2638837417) =
      (1357805794, 3696012972, 2576138662, 1165304173, 1910924467, 3143693730, 2642434874, 1203347353)"
    by (simp add: sha_round_tuple sha_functions)
  have r22: "sha_round (1357805794, 3696012972, 2576138662, 1165304173, 1910924467, 3143693730, 2642434874, 1203347353)
      (1555081692, 3311047088) =
      (2472071267, 1357805794, 3696012972, 2576138662, 355891490, 1910924467, 3143693730, 2642434874)"
    by (simp add: sha_round_tuple sha_functions)
  have r23: "sha_round (2472071267, 1357805794, 3696012972, 2576138662, 355891490, 1910924467, 3143693730, 2642434874)
      (1996064986, 3105872548) =
      (2500045552, 2472071267, 1357805794, 3696012972, 1505252129, 355891490, 1910924467, 3143693730)"
    by (simp add: sha_round_tuple sha_functions)
  have r24: "sha_round (2500045552, 2472071267, 1357805794, 3696012972, 1505252129, 355891490, 1910924467, 3143693730)
      (2554220882, 4042899836) =
      (3241033443, 2500045552, 2472071267, 1357805794, 2411754424, 1505252129, 355891490, 1910924467)"
    by (simp add: sha_round_tuple sha_functions)
  have r25: "sha_round (3241033443, 2500045552, 2472071267, 1357805794, 2411754424, 1505252129, 355891490, 1910924467)
      (2821834349, 1626328752) =
      (1519271721, 3241033443, 2500045552, 2472071267, 1522791259, 2411754424, 1505252129, 355891490)"
    by (simp add: sha_round_tuple sha_functions)
  have r26: "sha_round (1519271721, 3241033443, 2500045552, 2472071267, 1522791259, 2411754424, 1505252129, 355891490)
      (2952996808, 530714494) =
      (3237108592, 1519271721, 3241033443, 2500045552, 3961974305, 1522791259, 2411754424, 1505252129)"
    by (simp add: sha_round_tuple sha_functions)
  have r27: "sha_round (3237108592, 1519271721, 3241033443, 2500045552, 3961974305, 1522791259, 2411754424, 1505252129)
      (3210313671, 1745446276) =
      (22924614, 3237108592, 1519271721, 3241033443, 3000755848, 3961974305, 1522791259, 2411754424)"
    by (simp add: sha_round_tuple sha_functions)
  have r28: "sha_round (22924614, 3237108592, 1519271721, 3241033443, 3000755848, 3961974305, 1522791259, 2411754424)
      (3336571891, 3818953551) =
      (2661499942, 22924614, 3237108592, 1519271721, 2174796271, 3000755848, 3961974305, 1522791259)"
    by (simp add: sha_round_tuple sha_functions)
  have r29: "sha_round (2661499942, 22924614, 3237108592, 1519271721, 2174796271, 3000755848, 3961974305, 1522791259)
      (3584528711, 1673743628) =
      (1623985380, 2661499942, 22924614, 3237108592, 786055230, 2174796271, 3000755848, 3961974305)"
    by (simp add: sha_round_tuple sha_functions)
  have r30: "sha_round (1623985380, 2661499942, 22924614, 3237108592, 786055230, 2174796271, 3000755848, 3961974305)
      (113926993, 4164075572) =
      (1576371955, 1623985380, 2661499942, 22924614, 3472294179, 786055230, 2174796271, 3000755848)"
    by (simp add: sha_round_tuple sha_functions)
  have r31: "sha_round (1576371955, 1623985380, 2661499942, 22924614, 3472294179, 786055230, 2174796271, 3000755848)
      (338241895, 2805329688) =
      (3803290437, 1576371955, 1623985380, 2661499942, 1345200190, 3472294179, 786055230, 2174796271)"
    by (simp add: sha_round_tuple sha_functions)
  have r32: "sha_round (3803290437, 1576371955, 1623985380, 2661499942, 1345200190, 3472294179, 786055230, 2174796271)
      (666307205, 3336944615) =
      (2394054309, 3803290437, 1576371955, 1623985380, 1735503631, 1345200190, 3472294179, 786055230)"
    by (simp add: sha_round_tuple sha_functions)
  have r33: "sha_round (2394054309, 3803290437, 1576371955, 1623985380, 1735503631, 1345200190, 3472294179, 786055230)
      (773529912, 3042714334) =
      (1850369698, 2394054309, 3803290437, 1576371955, 2691326112, 1735503631, 1345200190, 3472294179)"
    by (simp add: sha_round_tuple sha_functions)
  have r34: "sha_round (1850369698, 2394054309, 3803290437, 1576371955, 2691326112, 1735503631, 1345200190, 3472294179)
      (1294757372, 4044949976) =
      (2534690458, 1850369698, 2394054309, 3803290437, 2134643878, 2691326112, 1735503631, 1345200190)"
    by (simp add: sha_round_tuple sha_functions)
  have r35: "sha_round (2534690458, 1850369698, 2394054309, 3803290437, 2134643878, 2691326112, 1735503631, 1345200190)
      (1396182291, 3363114273) =
      (767310596, 2534690458, 1850369698, 2394054309, 36685391, 2134643878, 2691326112, 1735503631)"
    by (simp add: sha_round_tuple sha_functions)
  have r36: "sha_round (767310596, 2534690458, 1850369698, 2394054309, 36685391, 2134643878, 2691326112, 1735503631)
      (1695183700, 1885054798) =
      (336506319, 767310596, 2534690458, 1850369698, 1342319196, 36685391, 2134643878, 2691326112)"
    by (simp add: sha_round_tuple sha_functions)
  have r37: "sha_round (336506319, 767310596, 2534690458, 1850369698, 1342319196, 36685391, 2134643878, 2691326112)
      (1986661051, 2580598167) =
      (3265977736, 336506319, 767310596, 2534690458, 2316098886, 1342319196, 36685391, 2134643878)"
    by (simp add: sha_round_tuple sha_functions)
  have r38: "sha_round (3265977736, 336506319, 767310596, 2534690458, 2316098886, 1342319196, 36685391, 2134643878)
      (2177026350, 3168554045) =
      (4007609555, 3265977736, 336506319, 767310596, 162157731, 2316098886, 1342319196, 36685391)"
    by (simp add: sha_round_tuple sha_functions)
  have r39: "sha_round (4007609555, 3265977736, 336506319, 767310596, 162157731, 2316098886, 1342319196, 36685391)
      (2456956037, 2533808639) =
      (3085553421, 4007609555, 3265977736, 336506319, 2128303057, 162157731, 2316098886, 1342319196)"
    by (simp add: sha_round_tuple sha_functions)
  have r40: "sha_round (3085553421, 4007609555, 3265977736, 336506319, 2128303057, 162157731, 2316098886, 1342319196)
      (2730485921, 4118577584) =
      (1558353833, 3085553421, 4007609555, 3265977736, 3612966301, 2128303057, 162157731, 2316098886)"
    by (simp add: sha_round_tuple sha_functions)
  have r41: "sha_round (1558353833, 3085553421, 4007609555, 3265977736, 3612966301, 2128303057, 162157731, 2316098886)
      (2820302411, 2248364918) =
      (3734493186, 1558353833, 3085553421, 4007609555, 1110050420, 3612966301, 2128303057, 162157731)"
    by (simp add: sha_round_tuple sha_functions)
  have r42: "sha_round (3734493186, 1558353833, 3085553421, 4007609555, 1110050420, 3612966301, 2128303057, 162157731)
      (3259730800, 362445897) =
      (1923379766, 3734493186, 1558353833, 3085553421, 1506594364, 1110050420, 3612966301, 2128303057)"
    by (simp add: sha_round_tuple sha_functions)
  have r43: "sha_round (1923379766, 3734493186, 1558353833, 3085553421, 1506594364, 1110050420, 3612966301, 2128303057)
      (3345764771, 1102695070) =
      (438230746, 1923379766, 3734493186, 1558353833, 3599731553, 1506594364, 1110050420, 3612966301)"
    by (simp add: sha_round_tuple sha_functions)
  have r44: "sha_round (438230746, 1923379766, 3734493186, 1558353833, 3599731553, 1506594364, 1110050420, 3612966301)
      (3516065817, 3071750034) =
      (3273157613, 438230746, 1923379766, 3734493186, 3124238940, 3599731553, 1506594364, 1110050420)"
    by (simp add: sha_round_tuple sha_functions)
  have r45: "sha_round (3273157613, 438230746, 1923379766, 3734493186, 3124238940, 3599731553, 1506594364, 1110050420)
      (3600352804, 3282510700) =
      (1976416205, 3273157613, 438230746, 1923379766, 3024183197, 3124238940, 3599731553, 1506594364)"
    by (simp add: sha_round_tuple sha_functions)
  have r46: "sha_round (1976416205, 3273157613, 438230746, 1923379766, 3024183197, 3124238940, 3599731553, 1506594364)
      (4094571909, 1606378181) =
      (1859533479, 1976416205, 3273157613, 438230746, 3096819399, 3024183197, 3124238940, 3599731553)"
    by (simp add: sha_round_tuple sha_functions)
  have r47: "sha_round (1859533479, 1976416205, 3273157613, 438230746, 3096819399, 3024183197, 3124238940, 3599731553)
      (275423344, 3427143401) =
      (2960663192, 1859533479, 1976416205, 3273157613, 206987234, 3096819399, 3024183197, 3124238940)"
    by (simp add: sha_round_tuple sha_functions)
  have r48: "sha_round (2960663192, 1859533479, 1976416205, 3273157613, 206987234, 3096819399, 3024183197, 3124238940)
      (430227734, 1301122198) =
      (2248981964, 2960663192, 1859533479, 1976416205, 4227272070, 206987234, 3096819399, 3024183197)"
    by (simp add: sha_round_tuple sha_functions)
  have r49: "sha_round (2248981964, 2960663192, 1859533479, 1976416205, 4227272070, 206987234, 3096819399, 3024183197)
      (506948616, 2135465149) =
      (1312485737, 2248981964, 2960663192, 1859533479, 547111324, 4227272070, 206987234, 3096819399)"
    by (simp add: sha_round_tuple sha_functions)
  have r50: "sha_round (1312485737, 2248981964, 2960663192, 1859533479, 547111324, 4227272070, 206987234, 3096819399)
      (659060556, 3295910445) =
      (2542317377, 1312485737, 2248981964, 2960663192, 1294258027, 547111324, 4227272070, 206987234)"
    by (simp add: sha_round_tuple sha_functions)
  have r51: "sha_round (2542317377, 1312485737, 2248981964, 2960663192, 1294258027, 547111324, 4227272070, 206987234)
      (883997877, 1486577358) =
      (3792735751, 2542317377, 1312485737, 2248981964, 3475792267, 1294258027, 547111324, 4227272070)"
    by (simp add: sha_round_tuple sha_functions)
  have r52: "sha_round (3792735751, 2542317377, 1312485737, 2248981964, 3475792267, 1294258027, 547111324, 4227272070)
      (958139571, 30502760) =
      (3182049403, 3792735751, 2542317377, 1312485737, 3004897913, 3475792267, 1294258027, 547111324)"
    by (simp add: sha_round_tuple sha_functions)
  have r53: "sha_round (3182049403, 3792735751, 2542317377, 1312485737, 3004897913, 3475792267, 1294258027, 547111324)
      (1322822218, 1042698253) =
      (3709759693, 3182049403, 3792735751, 2542317377, 4017759802, 3004897913, 3475792267, 1294258027)"
    by (simp add: sha_round_tuple sha_functions)
  have r54: "sha_round (3709759693, 3182049403, 3792735751, 2542317377, 4017759802, 3004897913, 3475792267, 1294258027)
      (1537002063, 2133656316) =
      (3808720669, 3709759693, 3182049403, 3792735751, 4102597211, 4017759802, 3004897913, 3475792267)"
    by (simp add: sha_round_tuple sha_functions)
  have r55: "sha_round (3808720669, 3709759693, 3182049403, 3792735751, 4102597211, 4017759802, 3004897913, 3475792267)
      (1747873779, 633760834) =
      (1949757701, 3808720669, 3709759693, 3182049403, 2269551687, 4102597211, 4017759802, 3004897913)"
    by (simp add: sha_round_tuple sha_functions)
  have r56: "sha_round (1949757701, 3808720669, 3709759693, 3182049403, 2269551687, 4102597211, 4017759802, 3004897913)
      (1955562222, 3205850856) =
      (211089758, 1949757701, 3808720669, 3709759693, 3326523558, 2269551687, 4102597211, 4017759802)"
    by (simp add: sha_round_tuple sha_functions)
  have r57: "sha_round (211089758, 1949757701, 3808720669, 3709759693, 3326523558, 2269551687, 4102597211, 4017759802)
      (2024104815, 1436636026) =
      (2675051703, 211089758, 1949757701, 3808720669, 4266355109, 3326523558, 2269551687, 4102597211)"
    by (simp add: sha_round_tuple sha_functions)
  have r58: "sha_round (2675051703, 211089758, 1949757701, 3808720669, 4266355109, 3326523558, 2269551687, 4102597211)
      (2227730452, 3553641200) =
      (31717456, 2675051703, 211089758, 1949757701, 2120142742, 4266355109, 3326523558, 2269551687)"
    by (simp add: sha_round_tuple sha_functions)
  have r59: "sha_round (31717456, 2675051703, 211089758, 1949757701, 2120142742, 4266355109, 3326523558, 2269551687)
      (2361852424, 3216681118) =
      (2976966091, 31717456, 2675051703, 211089758, 3399167342, 2120142742, 4266355109, 3326523558)"
    by (simp add: sha_round_tuple sha_functions)
  have r60: "sha_round (2976966091, 31717456, 2675051703, 211089758, 3399167342, 2120142742, 4266355109, 3326523558)
      (2428436474, 662217187) =
      (3947346370, 2976966091, 31717456, 2675051703, 1691560477, 3399167342, 2120142742, 4266355109)"
    by (simp add: sha_round_tuple sha_functions)
  have r61: "sha_round (3947346370, 2976966091, 31717456, 2675051703, 1691560477, 3399167342, 2120142742, 4266355109)
      (2756734187, 2655081050) =
      (112044185, 3947346370, 2976966091, 31717456, 2593782702, 1691560477, 3399167342, 2120142742)"
    by (simp add: sha_round_tuple sha_functions)
  have r62: "sha_round (112044185, 3947346370, 2976966091, 31717456, 2593782702, 1691560477, 3399167342, 2120142742)
      (3204031479, 334772051) =
      (1816895972, 112044185, 3947346370, 2976966091, 386446616, 2593782702, 1691560477, 3399167342)"
    by (simp add: sha_round_tuple sha_functions)
  have r63: "sha_round (1816895972, 112044185, 3947346370, 2976966091, 386446616, 2593782702, 1691560477, 3399167342)
      (3329325298, 1420573813) =
      (1218360064, 1816895972, 112044185, 3947346370, 1359598454, 386446616, 2593782702, 1691560477)"
    by (simp add: sha_round_tuple sha_functions)
  show ?thesis
    unfolding sha_init_def sha_k_def
    by (simp only: zip_Cons_Cons zip_Nil foldl_Cons foldl_Nil
          r0 r1 r2 r3 r4 r5 r6 r7 r8 r9 r10 r11 r12 r13 r14 r15
          r16 r17 r18 r19 r20 r21 r22 r23 r24 r25 r26 r27 r28 r29 r30 r31
          r32 r33 r34 r35 r36 r37 r38 r39 r40 r41 r42 r43 r44 r45 r46 r47
          r48 r49 r50 r51 r52 r53 r54 r55 r56 r57 r58 r59 r60 r61 r62 r63)
qed

lemma scenario1_digest:
  "sha256_hex ''/a|/b|zstd|1.0'' = ''b2a8996727b35069431c9c0b9097aefca21825f5b20e1da4ba1dd559c0b3f736''"
proof -
  have "sha256 (map of_char ''/a|/b|zstd|1.0'') =
          (2997393767, 666062953, 1125948427, 2425859836, 2719491573, 2987269540, 3122517337, 3233019702)"
    unfolding sha256_def scenario1_words
    by (simp add: sha_blocks.simps sha_compress_def scenario1_schedule scenario1_rounds)
       (simp add: sha_init_def sha_add_def)
  then show ?thesis
    by (simp add: sha256_hex_def hex32_def hex_char_def)
qed

subsection \<open>Decimal numerals\<close>

lemma digit_value_digit_char:
  assumes "d < 10"
  shows "digit_value (digit_char d) = d"
proof -
  from assms have "d \<in> {0, 1, 2, 3, 4, 5, 6, 7, 8, 9}" by auto
  then show ?thesis by (auto simp: digit_value_def digit_char_def)
qed

lemma digit_char_is_digit: "d < 10 \<Longrightarrow> digit_char d \<in> set ''0123456789''"
  unfolding digit_char_def by (rule nth_mem) simp

lemma decimal_digits: "set (decimal n) \<subseteq> set ''0123456789''"
proof (induction n rule: decimal.induct)
  case (1 n)
  show ?case
  proof (cases "n < 10")
    case True
    then show ?thesis
      using digit_char_is_digit [of n] by (simp add: decimal.simps [of n])
  next
    case False
    with 1 digit_char_is_digit [of "n mod 10"] show ?thesis
      by (simp add: decimal.simps [of n])
  qed
qed

lemma decimal_value_snoc: "decimal_value (s @ [c]) = 10 * decimal_value s + digit_value c"
  by (simp add: decimal_value_def)

lemma decimal_value_decimal: "decimal_value (decimal n) = n"
proof (induction n rule: decimal.induct)
  case (1 n)
  show ?case
  proof (cases "n < 10")
    case True
    then show ?thesis
      by (simp add: decimal.simps [of n] decimal_value_def digit_value_digit_char)
  next
    case False
    with 1 show ?thesis
      by (simp add: decimal.simps [of n] decimal_value_snoc digit_value_digit_char)
  qed
qed

subsection \<open>Safe integers are printed digit by digit\<close>

lemma bit_length_le_iff: "bit_length v \<le> k \<longleftrightarrow> v < 2 ^ k"
proof (induction v arbitrary: k rule: bit_length.induct)
  case (1 n)
  show ?case
  proof (cases "n = 0")
    case True
    then show ?thesis by (simp add: bit_length.simps [of 0])
  next
    case False
    show ?thesis
    proof (cases k)
      case 0
      with False show ?thesis by (simp add: bit_length.simps [of n])
    next
      case (Suc j)
      have "bit_length (n div 2) \<le> j \<longleftrightarrow> n div 2 < 2 ^ j"
        using False by (rule "1.IH")
      moreover have "n div 2 < 2 ^ j \<longleftrightarrow> n < 2 ^ Suc j" by auto
      ultimately show ?thesis
        using False Suc by (simp add: bit_length.simps [of n])
    qed
  qed
qed

lemma to_double_small: "v < 2 ^ 53 \<Longrightarrow> to_double v = v"
  using bit_length_le_iff [of v 53] by (simp add: to_double_def)

lemma to_double_large:
  assumes "2 ^ 53 \<le> v"
  shows "(2::nat) ^ 53 \<le> to_double v"
proof -
  define b where "b = bit_length v"
  have b53: "53 < b"
    using assms bit_length_le_iff [of v 53] by (simp add: b_def)
  have "\<not> bit_length v \<le> b - 1" using b53 by (simp add: b_def)
  then have low: "2 ^ (b - 1) \<le> v"
    using bit_length_le_iff [of v "b - 1"] by simp
  define unit :: nat where "unit = 2 ^ (b - 53)"
  have "b - 1 = 52 + (b - 53)" using b53 by simp
  then have split: "(2::nat) ^ (b - 1) = 2 ^ 52 * unit"
    by (simp only: power_add unit_def)
  have "2 ^ 52 * unit div unit \<le> v div unit"
    using low unfolding split by (rule div_le_mono)
  then have q: "2 ^ 52 \<le> v div unit" by (simp add: unit_def)
  have two: "2 \<le> unit"
    using b53 self_le_power [of "2::nat" "b - 53"] by (simp add: unit_def)
  have "(2::nat) ^ 53 = 2 ^ 52 * 2" by simp
  also have "\<dots> \<le> (v div unit) * unit"
    using q two by (rule mult_le_mono)
  finally have down: "2 ^ 53 \<le> (v div unit) * unit" .
  then have up: "2 ^ 53 \<le> (v div unit + 1) * unit" by simp
  show ?thesis
    using b53 down up by (simp add: to_double_def b_def [symmetric] unit_def [symmetric] Let_def)
qed

lemma shortest_decimal_safe:
  assumes "x < 2 ^ 53"
  shows "shortest_decimal x = x"
proof (cases "find (\<lambda>v. to_double v = x)
                (concat (map (candidates_at x) (rev [0..<length (decimal x)])))")
  case None
  then show ?thesis by (simp add: shortest_decimal_def)
next
  case (Some v)
  then have round: "to_double v = x" by (auto simp: find_Some_iff)
  have "v = x"
  proof (cases "v < 2 ^ 53")
    case True
    then show ?thesis using round by (simp add: to_double_small)
  next
    case False
    then have "2 ^ 53 \<le> v" by simp
    then have "2 ^ 53 \<le> to_double v" by (rule to_double_large)
    with round assms show ?thesis by simp
  qed
  with Some show ?thesis by (simp add: shortest_decimal_def)
qed

lemma length_decimal_le: "0 < m \<Longrightarrow> x < 10 ^ m \<Longrightarrow> length (decimal x) \<le> m"
proof (induction x arbitrary: m rule: decimal.induct)
  case (1 n)
  show ?case
  proof (cases "n < 10")
    case True
    with 1 show ?thesis by (simp add: decimal.simps [of n])
  next
    case False
    with "1.prems" obtain j where m: "m = Suc j" and j: "0 < j"
      by (cases m; cases "m - 1") auto
    from "1.prems" m have "n div 10 < 10 ^ j" by auto
    with "1.IH" [OF False j] have "length (decimal (n div 10)) \<le> j" by simp
    with False m show ?thesis by (simp add: decimal.simps [of n])
  qed
qed

lemma number_to_string_safe:
  assumes "x < 2 ^ 53"
  shows "number_to_string x = decimal x"
proof -
  have "x < 10 ^ 16" using assms by simp
  then have "length (decimal x) \<le> 16" by (intro length_decimal_le) simp_all
  then show ?thesis
    using assms by (simp add: number_to_string_def shortest_decimal_safe Let_def)
qed

subsection \<open>Beyond the safe integers\<close>

text \<open>
  \<open>10 ^ 21\<close> is a double and is printed in exponent notation; \<open>2 ^ 63\<close> is printed
  with its seventeenth and later digits rounded away.
\<close>

lemma decimal_1e21: "decimal 1000000000000000000000 = ''1000000000000000000000''"
  by (simp add: decimal.simps digit_char_def)

lemma bit_length_1e21: "bit_length 1000000000000000000000 = 70"
  by (simp add: bit_length.simps)

lemma to_double_1e21: "to_double 1000000000000000000000 = 1000000000000000000000"
  by (simp add: to_double_def bit_length_1e21 Let_def)

lemma shortest_decimal_1e21: "shortest_decimal 1000000000000000000000 = 1000000000000000000000"
  by (simp add: shortest_decimal_def decimal_1e21 candidates_at_def to_double_1e21 Let_def)

lemma number_to_string_1e21: "number_to_string 1000000000000000000000 = ''1e+21''"
  by (simp add: number_to_string_def shortest_decimal_1e21 decimal_1e21 significant_digits_def
                Let_def decimal.simps digit_char_def)

lemma decimal_2p63: "decimal 9223372036854775808 = ''9223372036854775808''"
  by (simp add: decimal.simps digit_char_def)

lemma shortest_decimal_2p63: "shortest_decimal 9223372036854775808 = 9223372036854776000"
  by (simp add: shortest_decimal_def decimal_2p63 candidates_at_def to_double_def bit_length.simps Let_def)

lemma number_to_string_2p63: "number_to_string 9223372036854775808 = ''9223372036854776000''"
  by (simp add: number_to_string_def shortest_decimal_2p63 Let_def decimal.simps digit_char_def)

section \<open>Facts about getCacheVersion\<close>

lemma gcv_heap_result:
  assumes "paths < length h"
  shows "fst (getCacheVersion_heap env h paths compression crossOs) =
     sha256_hex (join (h ! paths
        @ (case compression of None \<Rightarrow> [] | Some m \<Rightarrow> if m = [] then [] else [m])
        @ (if platform env = ''win32'' \<and> crossOs \<noteq> Some True then [''windows-only''] else [])
        @ [''1.0'']) ''|'')"
  using assms
  by (auto simp: getCacheVersion_heap_def slice_def push_def versionSalt_def Let_def nth_append
           split: option.splits)

lemma gcv_heap_preserves:
  assumes "a < length h"
  shows "snd (getCacheVersion_heap env h paths compression crossOs) ! a = h ! a"
  using assms
  by (auto simp: getCacheVersion_heap_def slice_def push_def versionSalt_def Let_def nth_append
           split: option.splits)

lemma gcv_heap_length:
  "length (snd (getCacheVersion_heap env h paths compression crossOs)) = Suc (length h)"
  by (auto simp: getCacheVersion_heap_def slice_def push_def versionSalt_def Let_def
           split: option.splits)

lemma getCacheVersion_components:
  "getCacheVersion env paths compression crossOs =
     sha256_hex (join (paths
        @ (case compression of None \<Rightarrow> [] | Some m \<Rightarrow> if m = [] then [] else [m])
        @ (if platform env = ''win32'' \<and> crossOs \<noteq> Some True then [''windows-only''] else [])
        @ [''1.0'']) ''|'')"
  unfolding getCacheVersion_def by (subst gcv_heap_result) simp_all

lemma getCacheVersion_nonempty: "getCacheVersion env paths compression crossOs \<noteq> []"
proof -
  have "length (getCacheVersion env paths compression crossOs) = 64"
    unfolding getCacheVersion_components by (rule length_sha256_hex)
  then show ?thesis by auto
qed

section \<open>Facts about the key loop\<close>

lemma probes_snoc_warn: "probes (es @ [ConsoleWarn w]) = probes es"
  by (induction es rule: probes.induct) simp_all

lemma loop_all_miss:
  assumes "\<forall>key \<in> set keys. headObject client (bucket env) (scopedObjectKey env key) \<noteq> None"
  shows "fst (getCacheEntry_loop env client version keys) = None"
    and "probes (snd (getCacheEntry_loop env client version keys)) = map (scopedObjectKey env) keys"
  using assms
  by (induction keys) (auto simp: Let_def split: option.splits prod.splits)

lemma loop_first_match:
  assumes "\<forall>k \<in> set before. headObject client (bucket env) (scopedObjectKey env k) \<noteq> None"
    and "headObject client (bucket env) (scopedObjectKey env key) = None"
  shows "getCacheEntry_loop env client version (before @ key # after) =
           (Some \<lparr>cacheKey = Some key, scope = None, cacheVersion = Some version,
                  creationTime = None, objectKey = Some (scopedObjectKey env key)\<rparr>,
            snd (getCacheEntry_loop env client version before)
              @ [HeadObject (bucket env) (scopedObjectKey env key)])"
  using assms
  by (induction before) (auto simp: Let_def split: option.splits prod.splits)

lemma probes_snoc_head: "probes (es @ [HeadObject b k]) = probes es @ [k]"
  by (induction es rule: probes.induct) simp_all

lemma loop_version_independent:
  "snd (getCacheEntry_loop env client v1 keys) = snd (getCacheEntry_loop env client v2 keys)
   \<and> map_option (\<lambda>e. e\<lparr>cacheVersion := None\<rparr>) (fst (getCacheEntry_loop env client v1 keys))
     = map_option (\<lambda>e. e\<lparr>cacheVersion := None\<rparr>) (fst (getCacheEntry_loop env client v2 keys))"
  by (induction keys) (auto simp: Let_def split: option.splits prod.splits)

lemma loop_probes_prefix:
  "probes (snd (getCacheEntry_loop env client version keys)) =
     map (scopedObjectKey env)
       (take (length (probes (snd (getCacheEntry_loop env client version keys)))) keys)"
  by (induction keys) (auto simp: Let_def split: option.splits prod.splits)

lemma uploadFile_returns: "result (uploadFile env client cid archivePath) = Inr ()"
  by (simp add: uploadFile_def Let_def split: option.splits)

section \<open>The claims\<close>

text \<open>
  C4. The version is the hexadecimal SHA-256 digest of the paths, then the compression
  method if one is given, then the marker \<open>windows-only\<close> on Windows unless cross-OS
  archiving is enabled, then the salt \<open>1.0\<close>, joined by \<open>|\<close> in that order. On a
  platform that is not Windows, the version of the paths \<open>/a\<close>, \<open>/b\<close> with compression
  \<open>zstd\<close> is the digest of \<open>/a|/b|zstd|1.0\<close>.
\<close>

theorem getCacheVersion_digest_of_components:
  "getCacheVersion env paths compression crossOs =
     sha256_hex (join (paths
        @ (case compression of None \<Rightarrow> [] | Some m \<Rightarrow> if m = [] then [] else [m])
        @ (if platform env = ''win32'' \<and> crossOs \<noteq> Some True then [''windows-only''] else [])
        @ [''1.0'']) ''|'')
   \<and> (platform env \<noteq> ''win32'' \<longrightarrow>
        getCacheVersion env [''/a'', ''/b''] (Some ''zstd'') crossOs = sha256_hex ''/a|/b|zstd|1.0'')"
  by (simp add: getCacheVersion_components)

theorem getCacheVersion_digest_of_components_witness:
  "platform scenario_env \<noteq> ''win32''
   \<and> getCacheVersion scenario_env [''/a'', ''/b''] (Some ''zstd'') None
       = sha256_hex ''/a|/b|zstd|1.0''
   \<and> getCacheVersion scenario_env [''/a'', ''/b''] (Some ''zstd'') None
       = ''b2a8996727b35069431c9c0b9097aefca21825f5b20e1da4ba1dd559c0b3f736''"
  using getCacheVersion_digest_of_components
          [of scenario_env "[''/a'', ''/b'']" "Some ''zstd''" None]
  by (simp add: scenario_env_def scenario1_digest)

text \<open>
  C8. \<^verbatim>\<open>getCacheVersion\<close> is deterministic and does not change its argument. In any heap
  \<open>h\<close> with a valid reference \<open>paths\<close>: every array of \<open>h\<close>, the caller's list
  included, holds the same elements after the call; the result is a function of the
  elements of the list, the modifiers and the platform, so any two calls on lists with
  equal elements give the same version; and pushing onto a copy of the list, made after
  the call, changes neither the list nor the result of a later call with it.
\<close>

theorem getCacheVersion_heap_deterministic_and_nonmutating:
  assumes "paths < length h"
  shows "(\<forall>a < length h. snd (getCacheVersion_heap env h paths compression crossOs) ! a = h ! a)
    \<and> fst (getCacheVersion_heap env h paths compression crossOs)
        = getCacheVersion env (h ! paths) compression crossOs
    \<and> (\<forall>h' paths'. paths' < length h' \<and> h' ! paths' = h ! paths \<longrightarrow>
          fst (getCacheVersion_heap env h' paths' compression crossOs)
            = fst (getCacheVersion_heap env h paths compression crossOs))
    \<and> (let h1 = snd (getCacheVersion_heap env h paths compression crossOs);
            (copy, h2) = slice h1 paths;
            h3 = push h2 copy extra
        in h3 ! paths = h ! paths
           \<and> fst (getCacheVersion_heap env h3 paths compression crossOs)
               = fst (getCacheVersion_heap env h paths compression crossOs))"
proof -
  let ?run = "getCacheVersion_heap env h paths compression crossOs"
  have kept: "\<forall>a < length h. snd ?run ! a = h ! a"
    by (simp add: gcv_heap_preserves)
  have digest: "fst ?run = getCacheVersion env (h ! paths) compression crossOs"
    using assms by (simp add: gcv_heap_result getCacheVersion_components)
  have same: "fst (getCacheVersion_heap env h' paths' compression crossOs) = fst ?run"
    if "paths' < length h'" "h' ! paths' = h ! paths" for h' paths'
    using that assms by (simp add: gcv_heap_result)
  have len: "length (snd ?run) = Suc (length h)"
    by (rule gcv_heap_length)
  have copy: "push (snd (slice (snd ?run) paths)) (fst (slice (snd ?run) paths)) extra ! paths
                = h ! paths"
    using assms len kept by (simp add: slice_def push_def nth_append)
  have copy_len: "paths < length (push (snd (slice (snd ?run) paths)) (fst (slice (snd ?run) paths)) extra)"
    using assms len by (simp add: slice_def push_def)
  have again: "fst (getCacheVersion_heap env
                 (push (snd (slice (snd ?run) paths)) (fst (slice (snd ?run) paths)) extra)
                 paths compression crossOs) = fst ?run"
    using same [OF copy_len copy] .
  show ?thesis
    using kept digest same copy again by (simp add: Let_def split_beta)
qed

theorem getCacheVersion_heap_deterministic_and_nonmutating_witness:
  "(0::nat) < length [[''/a'', ''/b'']]
   \<and> getCacheVersion_heap scenario_env [[''/a'', ''/b'']] 0 (Some ''zstd'') None
       = (sha256_hex ''/a|/b|zstd|1.0'', [[''/a'', ''/b''], [''/a'', ''/b'', ''zstd'', ''1.0'']])
   \<and> fst (getCacheVersion_heap scenario_env
             (push (snd (slice [[''/a'', ''/b''], [''/a'', ''/b'', ''zstd'', ''1.0'']] 0)) 2 ''/c'')
             0 (Some ''zstd'') None)
       = sha256_hex ''/a|/b|zstd|1.0''"
  using getCacheVersion_heap_deterministic_and_nonmutating
          [of 0 "[[''/a'', ''/b'']]" scenario_env "Some ''zstd''" None "''/c''"]
  by (simp add: getCacheVersion_heap_def slice_def push_def versionSalt_def scenario_env_def
                Let_def)

text \<open>
  C3. \<^verbatim>\<open>getCacheEntry\<close> probes the keys in the given order, each at the address
  \<open>caches/{repo}/{ref}/{workflowHash}/{key}\<close>. When the query throws for every key of
  \<open>before\<close> and returns for \<open>key\<close>, the entry returned has that key as its
  \<open>cacheKey\<close> and that address as its \<open>objectKey\<close>, and the addresses queried are those
  of \<open>before\<close> and of \<open>key\<close>, in order: no key of \<open>after\<close> is probed. With the keys
  \<open>lock-abc\<close>, \<open>lock-\<close> and the only object at \<open>caches/r/main/h/lock-\<close>, the entry
  has \<open>cacheKey = lock-\<close>.
\<close>

theorem getCacheEntry_first_match_wins:
  assumes "\<forall>k \<in> set before. headObject client (bucket env) (scopedObjectKey env k) \<noteq> None"
    and "headObject client (bucket env) (scopedObjectKey env key) = None"
  shows "result (getCacheEntry env client (before @ key # after) paths options) =
           Inr \<lparr>cacheKey = Some key, scope = None,
                cacheVersion = Some (getCacheVersion env paths (options_compressionMethod options)
                                       (options_enableCrossOsArchive options)),
                creationTime = None,
                objectKey = Some (''caches/'' @ template_value (repo env) @ ''/''
                                  @ template_value (ref env) @ ''/''
                                  @ template_value (workflowHash env) @ ''/'' @ key)\<rparr>
    \<and> probes (trace (getCacheEntry env client (before @ key # after) paths options)) =
          map (\<lambda>k. ''caches/'' @ template_value (repo env) @ ''/'' @ template_value (ref env)
                     @ ''/'' @ template_value (workflowHash env) @ ''/'' @ k) (before @ [key])"
proof -
  have addr: "scopedObjectKey env = (\<lambda>k. ''caches/'' @ template_value (repo env) @ ''/''
                @ template_value (ref env) @ ''/'' @ template_value (workflowHash env) @ ''/'' @ k)"
    by (rule ext) (simp add: scopedObjectKey_def)
  have before: "probes (snd (getCacheEntry_loop env client v before)) = map (scopedObjectKey env) before"
    for v using assms(1) by (rule loop_all_miss(2))
  show ?thesis
    unfolding getCacheEntry_def Let_def loop_first_match [OF assms]
    by (simp add: probes_snoc_head before addr [symmetric]) (simp add: scopedObjectKey_def)
qed

theorem getCacheEntry_first_match_wins_witness:
  "result (getCacheEntry scenario_env (holding_client [''caches/r/main/h/lock-''])
             [''lock-abc'', ''lock-''] [''/a''] None) =
     Inr \<lparr>cacheKey = Some ''lock-'', scope = None,
          cacheVersion = Some (getCacheVersion scenario_env [''/a''] None None),
          creationTime = None, objectKey = Some ''caches/r/main/h/lock-''\<rparr>
   \<and> probes (trace (getCacheEntry scenario_env (holding_client [''caches/r/main/h/lock-''])
                      [''lock-abc'', ''lock-''] [''/a''] None)) =
       [''caches/r/main/h/lock-abc'', ''caches/r/main/h/lock-'']"
  using getCacheEntry_first_match_wins
          [of "[''lock-abc'']" "holding_client [''caches/r/main/h/lock-'']" scenario_env
              "''lock-''" "[]" "[''/a'']" None]
  by (simp add: holding_client_def failing_client_def scenario_env_def scopedObjectKey_def
                template_value_def options_compressionMethod_def
                options_enableCrossOsArchive_def)

text \<open>
  C7. When the existence query returns for none of the keys, \<^verbatim>\<open>getCacheEntry\<close> returns
  an entry whose \<open>cacheKey\<close> and \<open>objectKey\<close> are unset and whose \<open>cacheVersion\<close> is
  the computed version, a non-empty string (of 64 hexadecimal digits).
\<close>

theorem getCacheEntry_miss_carries_version:
  assumes "\<forall>key \<in> set keys. headObject client (bucket env) (scopedObjectKey env key) \<noteq> None"
  shows "result (getCacheEntry env client keys paths options) =
           Inr \<lparr>cacheKey = None, scope = None,
                cacheVersion = Some (getCacheVersion env paths (options_compressionMethod options)
                                       (options_enableCrossOsArchive options)),
                creationTime = None, objectKey = None\<rparr>
    \<and> getCacheVersion env paths (options_compressionMethod options)
          (options_enableCrossOsArchive options) \<noteq> []
    \<and> length (getCacheVersion env paths (options_compressionMethod options)
          (options_enableCrossOsArchive options)) = 64"
proof -
  have "fst (getCacheEntry_loop env client v keys) = None" for v
    using assms by (rule loop_all_miss(1))
  then have "result (getCacheEntry env client keys paths options) =
           Inr \<lparr>cacheKey = None, scope = None,
                cacheVersion = Some (getCacheVersion env paths (options_compressionMethod options)
                                       (options_enableCrossOsArchive options)),
                creationTime = None, objectKey = None\<rparr>"
    by (simp add: getCacheEntry_def Let_def split_beta)
  moreover have "length (getCacheVersion env paths (options_compressionMethod options)
          (options_enableCrossOsArchive options)) = 64"
    unfolding getCacheVersion_components by (rule length_sha256_hex)
  ultimately show ?thesis
    using getCacheVersion_nonempty by simp
qed

theorem getCacheEntry_miss_carries_version_witness:
  "getCacheEntry scenario_env (holding_client []) [''lock-abc'', ''lock-''] [''/a''] None =
     \<lparr>result = Inr \<lparr>cacheKey = None, scope = None,
                    cacheVersion = Some (getCacheVersion scenario_env [''/a''] None None),
                    creationTime = None, objectKey = None\<rparr>,
      trace = [HeadObject (Some ''test-cache-action'') ''caches/r/main/h/lock-abc'',
               ConsoleWarn ''Unable to find cache with key caches/r/main/h/lock-abc.'',
               HeadObject (Some ''test-cache-action'') ''caches/r/main/h/lock-'',
               ConsoleWarn ''Unable to find cache with key caches/r/main/h/lock-.'',
               ConsoleWarn ''Failed to find cache that matches keys: lock-abc,lock-'']\<rparr>
   \<and> length (getCacheVersion scenario_env [''/a''] None None) = 64"
  using getCacheEntry_miss_carries_version
          [of "[''lock-abc'', ''lock-'']" "holding_client []" scenario_env "[''/a'']" None]
  by (simp add: getCacheEntry_def holding_client_def failing_client_def scenario_env_def
                scopedObjectKey_def template_value_def options_compressionMethod_def
                options_enableCrossOsArchive_def notFound_def isNotFound_def Let_def)

text \<open>
  C10. The address probed for a key is made of the environment and the key, not of the
  version: the addresses queried are those of a prefix of the key list. Two calls with the
  same environment, backend and keys but different paths or options perform the same
  queries and log the same lines, and their results agree in every field but
  \<open>cacheVersion\<close>: both hit, with the same \<open>cacheKey\<close> and \<open>objectKey\<close>, or both miss.
\<close>

theorem getCacheEntry_resolution_independent_of_version:
  "trace (getCacheEntry env client keys paths1 options1)
     = trace (getCacheEntry env client keys paths2 options2)
   \<and> map_sum id (\<lambda>entry. entry\<lparr>cacheVersion := None\<rparr>)
         (result (getCacheEntry env client keys paths1 options1))
     = map_sum id (\<lambda>entry. entry\<lparr>cacheVersion := None\<rparr>)
         (result (getCacheEntry env client keys paths2 options2))
   \<and> probes (trace (getCacheEntry env client keys paths1 options1))
     = map (scopedObjectKey env)
         (take (length (probes (trace (getCacheEntry env client keys paths1 options1)))) keys)"
proof -
  let ?v1 = "getCacheVersion env paths1 (options_compressionMethod options1)
               (options_enableCrossOsArchive options1)"
  let ?v2 = "getCacheVersion env paths2 (options_compressionMethod options2)
               (options_enableCrossOsArchive options2)"
  obtain f1 e1 where l1: "getCacheEntry_loop env client ?v1 keys = (f1, e1)" by fastforce
  obtain f2 e2 where l2: "getCacheEntry_loop env client ?v2 keys = (f2, e2)" by fastforce
  from loop_version_independent [of env client ?v1 keys ?v2] l1 l2
  have ev: "e1 = e2"
    and fd: "map_option (\<lambda>e. e\<lparr>cacheVersion := None\<rparr>) f1
               = map_option (\<lambda>e. e\<lparr>cacheVersion := None\<rparr>) f2"
    by simp_all
  from loop_probes_prefix [of env client ?v1 keys] l1
  have pre: "probes e1 = map (scopedObjectKey env) (take (length (probes e1)) keys)" by simp
  have t1: "trace (getCacheEntry env client keys paths1 options1) =
              (case f1 of Some _ \<Rightarrow> e1
               | None \<Rightarrow> e1 @ [ConsoleWarn (''Failed to find cache that matches keys: '' @ join keys '','')])"
    by (simp add: getCacheEntry_def Let_def l1 split: option.splits)
  have t2: "trace (getCacheEntry env client keys paths2 options2) =
              (case f2 of Some _ \<Rightarrow> e2
               | None \<Rightarrow> e2 @ [ConsoleWarn (''Failed to find cache that matches keys: '' @ join keys '','')])"
    by (simp add: getCacheEntry_def Let_def l2 split: option.splits)
  have same_trace: "trace (getCacheEntry env client keys paths1 options1)
     = trace (getCacheEntry env client keys paths2 options2)"
    unfolding t1 t2 using ev fd by (cases f1; cases f2) simp_all
  have same_result: "map_sum id (\<lambda>entry. entry\<lparr>cacheVersion := None\<rparr>)
         (result (getCacheEntry env client keys paths1 options1))
     = map_sum id (\<lambda>entry. entry\<lparr>cacheVersion := None\<rparr>)
         (result (getCacheEntry env client keys paths2 options2))"
    using fd by (cases f1; cases f2) (simp_all add: getCacheEntry_def Let_def l1 l2)
  have prefix: "probes (trace (getCacheEntry env client keys paths1 options1))
     = map (scopedObjectKey env)
         (take (length (probes (trace (getCacheEntry env client keys paths1 options1)))) keys)"
    unfolding t1 using pre by (cases f1) (simp_all add: probes_snoc_warn)
  from same_trace same_result prefix show ?thesis by blast
qed

text \<open>
  C9, as stated: for all integers \<open>0 \<le> start \<le> end\<close> the Content-Range header is the
  string \<open>bytes {start}-{end}/*\<close> with the two offsets written out. It fails at
  \<open>start = end = 10 ^ 21\<close>, a value a number can hold: the header is
  \<open>bytes 1e+21-1e+21/*\<close>.
\<close>

theorem getContentRange_exponent_notation:
  "to_double 1000000000000000000000 = 1000000000000000000000
   \<and> getContentRange 1000000000000000000000 1000000000000000000000 = ''bytes 1e+21-1e+21/*''
   \<and> getContentRange 1000000000000000000000 1000000000000000000000
       \<noteq> ''bytes 1000000000000000000000-1000000000000000000000/*''"
  by (simp add: getContentRange_def number_to_string_1e21 to_double_1e21)

text \<open>
  C9, amended. For all safe integers \<open>0 \<le> start \<le> end < 2 ^ 53\<close>, the Content-Range
  header of a chunk is the string \<open>bytes {start}-{end}/*\<close>: the two offsets in decimal
  digits, from which they are read back, and \<open>*\<close> for the total size. A chunk of 200
  bytes at offset 0 has the header \<open>bytes 0-199/*\<close>.
\<close>

theorem getContentRange_format_safe:
  assumes "start \<le> end'" and "end' < 2 ^ 53"
  shows "getContentRange start end'
           = ''bytes '' @ decimal start @ ''-'' @ decimal end' @ ''/*''
    \<and> decimal_value (decimal start) = start
    \<and> decimal_value (decimal end') = end'
    \<and> set (decimal start) \<subseteq> set ''0123456789''
    \<and> set (decimal end') \<subseteq> set ''0123456789''"
proof -
  from assms have "start < 2 ^ 53" by simp
  then have "number_to_string start = decimal start" by (rule number_to_string_safe)
  moreover from assms(2) have "number_to_string end' = decimal end'"
    by (rule number_to_string_safe)
  ultimately show ?thesis
    using decimal_digits [of start] decimal_digits [of end']
    by (simp add: getContentRange_def decimal_value_decimal)
qed

theorem getContentRange_format_safe_witness:
  "(0::nat) \<le> 199 \<and> (199::nat) < 2 ^ 53 \<and> getContentRange 0 199 = ''bytes 0-199/*''"
  using getContentRange_format_safe [of 0 199]
  by (simp add: decimal.simps digit_char_def)

text \<open>
  C5, as stated: two distinct invocations of \<^verbatim>\<open>reserveCacheVolc\<close> return different
  reservation identifiers. It fails: two invocations with different keys and paths return
  the same \<open>cacheId\<close>.
\<close>

theorem reserveCacheVolc_ids_coincide:
  "cacheId (reserveCacheVolc scenario_env ''key-1'' [''/a''] None)
     = cacheId (reserveCacheVolc scenario_env ''key-2'' [''/b''] None)"
  by (simp add: reserveCacheVolc_def Let_def)

text \<open>
  C5, amended. \<^verbatim>\<open>reserveCacheVolc\<close> grants every reservation with the same identifier:
  for every key, path list and options, it returns \<open>cacheId = 1\<close>.
\<close>

theorem reserveCacheVolc_constant_id:
  "reserveCacheVolc env key paths options = \<lparr>cacheId = 1\<rparr>"
  by (simp add: reserveCacheVolc_def Let_def)

text \<open>
  C6, as stated: when the backend declares a content length and fewer bytes are delivered,
  \<^verbatim>\<open>downloadCache\<close> fails and the destination does not exist afterwards. It fails for a
  client whose \<^verbatim>\<open>getObjectToFile\<close> declares four bytes, writes two and returns normally:
  \<^verbatim>\<open>downloadCache\<close> returns normally and the destination holds the two bytes.
\<close>

theorem downloadCache_truncated_success:
  "getObjectToFile truncating_client (bucket scenario_env) ''caches/r/main/h/lock-''
       ''/tmp/cache.tzst'' Map.empty
     = (Inr \<lparr>contentLength = 4\<rparr>, [''/tmp/cache.tzst'' \<mapsto> [1, 2]])
   \<and> length [1, 2 :: byte] < 4
   \<and> result (fst (downloadCache scenario_env truncating_client ''caches/r/main/h/lock-''
                     ''/tmp/cache.tzst'' Map.empty)) = Inr ()
   \<and> snd (downloadCache scenario_env truncating_client ''caches/r/main/h/lock-''
              ''/tmp/cache.tzst'' Map.empty) ''/tmp/cache.tzst'' = Some [1, 2]"
  by (simp add: downloadCache_def truncating_client_def failing_client_def)

text \<open>
  C6, amended. \<^verbatim>\<open>downloadCache\<close> makes one call of \<^verbatim>\<open>getObjectToFile\<close> and adds no check
  of the length and no removal of the destination: it fails exactly when that call throws,
  with the error thrown, and it leaves the files as that call left them.
\<close>

theorem downloadCache_delegates:
  "result (fst (downloadCache env client objKey archivePath fs))
     = (case fst (getObjectToFile client (bucket env) objKey archivePath fs) of
          Inl error \<Rightarrow> Inl error | Inr response \<Rightarrow> Inr ())
   \<and> snd (downloadCache env client objKey archivePath fs)
     = snd (getObjectToFile client (bucket env) objKey archivePath fs)
   \<and> trace (fst (downloadCache env client objKey archivePath fs))
     = [GetObjectToFile (bucket env) objKey archivePath]"
  by (simp add: downloadCache_def split_beta split: sum.splits)

text \<open>
  C1, at an upload that fails. \<^verbatim>\<open>putObjectFromFile\<close> throws a 403 server error for an
  archive of 5 MB that exists: \<^verbatim>\<open>uploadFile\<close> catches the error and only logs it, and
  \<^verbatim>\<open>saveCache\<close> returns normally after logging \<open>Cache saved successfully\<close>.
\<close>

theorem saveCache_reports_success_after_failed_upload:
  "putObjectFromFile (failing_client accessDenied) (bucket scenario_env)
       ''caches/r/main/h/lock-abc'' ''/tmp/cache.tzst'' = Some accessDenied
   \<and> saveCache scenario_env (failing_client accessDenied) archive_sizes
         ''lock-abc'' ''/tmp/cache.tzst''
     = \<lparr>result = Inr (),
        trace = [CoreDebug ''Upload cache'',
                 PutObjectFromFile (Some ''test-cache-action'') ''caches/r/main/h/lock-abc''
                   ''/tmp/cache.tzst'',
                 ConsoleLog ''Request ID:'' ''req-403'',
                 ConsoleLog ''Response Status Code:'' ''403'',
                 ConsoleLog ''Response Header:'' ''{}'',
                 ConsoleLog ''Response Err Code:'' ''AccessDenied'',
                 ConsoleLog ''Response Err Msg:'' ''Access Denied'',
                 CoreDebug ''Commiting cache'',
                 CoreInfo ''Cache Size: ~5 MB (5242880 B)'',
                 CoreInfo ''Cache saved successfully'']\<rparr>"
  by (simp add: saveCache_def uploadFile_def handleError_def failing_client_def
                accessDenied_def archive_sizes_def scenario_env_def scopedObjectKey_def
                template_value_def roundedMB_def number_to_string_safe decimal.simps
                digit_char_def Let_def)

text \<open>
  C2, at an existence query that fails with an error other than 404. \<^verbatim>\<open>headObject\<close>
  throws a 403 server error: \<^verbatim>\<open>getCacheEntry\<close> does not propagate it, and returns the
  same miss as for an absent object, without the warning logged for a 404.
\<close>

theorem getCacheEntry_swallows_access_denied:
  "headObject (failing_client accessDenied) (bucket scenario_env)
       ''caches/r/main/h/lock-abc'' = Some accessDenied
   \<and> getCacheEntry scenario_env (failing_client accessDenied) [''lock-abc''] [''/a''] None
     = \<lparr>result = Inr \<lparr>cacheKey = None, scope = None,
                      cacheVersion = Some (getCacheVersion scenario_env [''/a''] None None),
                      creationTime = None, objectKey = None\<rparr>,
        trace = [HeadObject (Some ''test-cache-action'') ''caches/r/main/h/lock-abc'',
                 ConsoleWarn ''Failed to find cache that matches keys: lock-abc'']\<rparr>"
  by (simp add: getCacheEntry_def failing_client_def accessDenied_def scenario_env_def
                scopedObjectKey_def template_value_def isNotFound_def
                options_compressionMethod_def options_enableCrossOsArchive_def Let_def)

end
